theory Spec2Isabelle
  imports
    Main
    "HOL-Library.Sublist"
    "HOL-Library.Multiset"
    "HOL-Library.Char_ord"
    "HOL-Library.List_Lexorder"
    "HOL-Library.Monad_Syntax"
begin

section \<open>Data model (src/types/index.ts)\<close>

text \<open>
  Every interface of \<^verbatim>\<open>src/types/index.ts\<close> is a record. Field names carry a one-letter
  prefix of their interface, because the interfaces share field names (\<^verbatim>\<open>id\<close>,
  \<^verbatim>\<open>clinicId\<close>, \<^verbatim>\<open>date\<close>, ...): \<open>p_\<close> Patient, \<open>v_\<close> Visit, \<open>a_\<close> Appointment,
  \<open>i_\<close> IncomeRecord, \<open>e_\<close> ExpenseRecord, \<open>c_\<close> Clinic.

  The TypeScript type \<^verbatim>\<open>number\<close> is the type variable \<open>'n\<close>: nothing below depends on
  how numbers are represented or on laws of their arithmetic. Strings are \<open>string\<close>
  (lists of 8-bit characters), so the model covers strings whose UTF-16 code units are
  below 256; the order \<open>\<le>\<close> on strings is the lexicographic order by character code,
  which is what the relational operators of the source language compute on strings.
  An optional field (\<^verbatim>\<open>followUpDate?\<close>, \<^verbatim>\<open>notes?\<close>) is an \<open>option\<close>; an absent property
  and a property holding \<^verbatim>\<open>undefined\<close> are both \<open>None\<close>.
\<close>

datatype Sex = Male | Female | Other

datatype Status = scheduled | completed | cancelled | failed

record 'n Patient =
  p_id :: string
  p_name :: string
  p_age :: 'n
  p_sex :: Sex
  p_phoneNumber :: string
  p_location :: string
  p_allergy :: string
  p_pastMedicalHistory :: string
  p_createdAt :: string
  p_updatedAt :: string
  p_clinicId :: string

record 'n Visit =
  v_id :: string
  v_patientId :: string
  v_patientName :: string
  v_complaints :: string
  v_diagnosis :: string
  v_treatment :: string
  v_fee :: 'n
  v_followUpDate :: "string option"
  v_visitDate :: string
  v_clinicId :: string

record Appointment =
  a_id :: string
  a_patientId :: string
  a_patientName :: string
  a_phoneNumber :: string
  a_date :: string
  a_time :: string
  a_status :: Status
  a_notes :: "string option"
  a_clinicId :: string

record 'n IncomeRecord =
  i_id :: string
  i_visitId :: string
  i_patientName :: string
  i_amount :: 'n
  i_date :: string
  i_description :: string
  i_clinicId :: string

record 'n ExpenseRecord =
  e_id :: string
  e_amount :: 'n
  e_date :: string
  e_description :: string
  e_category :: string
  e_clinicId :: string

record Clinic =
  c_id :: string
  c_name :: string
  c_address :: string
  c_phoneNumber :: string
  c_isActive :: bool
  c_createdAt :: string

text \<open>
  \<^verbatim>\<open>Partial<T>\<close>, the argument of the update operations: every property may be
  absent, may be present with the value \<^verbatim>\<open>undefined\<close>, or may carry a value.
\<close>

datatype 'a property = Absent | Undefined | Value 'a

record 'n PatientUpdates =
  pu_id :: "string property"
  pu_name :: "string property"
  pu_age :: "'n property"
  pu_sex :: "Sex property"
  pu_phoneNumber :: "string property"
  pu_location :: "string property"
  pu_allergy :: "string property"
  pu_pastMedicalHistory :: "string property"
  pu_createdAt :: "string property"
  pu_updatedAt :: "string property"
  pu_clinicId :: "string property"

record AppointmentUpdates =
  au_id :: "string property"
  au_patientId :: "string property"
  au_patientName :: "string property"
  au_phoneNumber :: "string property"
  au_date :: "string property"
  au_time :: "string property"
  au_status :: "Status property"
  au_notes :: "string property"
  au_clinicId :: "string property"

record 'n ExpenseUpdates =
  eu_id :: "string property"
  eu_amount :: "'n property"
  eu_date :: "string property"
  eu_description :: "string property"
  eu_category :: "string property"
  eu_clinicId :: "string property"

section \<open>The platform: clock readings, JSON, key-value storage\<close>

text \<open>
  \<^verbatim>\<open>Date.now()\<close> is an input of the operations, a natural number of milliseconds;
  \<^verbatim>\<open>Date.now().toString()\<close> is its decimal numeral. \<^verbatim>\<open>new Date().toISOString()\<close> is
  an input too, the string the platform returns.
\<close>

fun toString :: "nat \<Rightarrow> string" where
  "toString n =
     (if n < 10 then [char_of (48 + n)]
      else toString (n div 10) @ [char_of (48 + n mod 10)])"

declare toString.simps [simp del]

text \<open>
  JSON documents. \<^verbatim>\<open>JSON.stringify\<close> turns a value into a text and \<^verbatim>\<open>JSON.parse\<close>
  turns that text back into the document it denotes; the model keeps the document and
  leaves its concrete syntax out. What \<^verbatim>\<open>JSON.stringify\<close> does to the values of this
  program is kept: a number that is not finite (\<^verbatim>\<open>NaN\<close>, \<^verbatim>\<open>Infinity\<close>,
  \<^verbatim>\<open>-Infinity\<close>) is written as \<^verbatim>\<open>null\<close>, a property whose value is \<^verbatim>\<open>undefined\<close>
  is left out, an array keeps its order. Which numbers are finite is the parameter
  \<open>isFinite\<close> of the functions below (\<^verbatim>\<open>Number.isFinite\<close>).
\<close>

datatype 'n json =
    JNull
  | JBool bool
  | JNumber 'n
  | JString string
  | JArray "'n json list"
  | JObject "(string \<times> 'n json) list"

text \<open>
  A string held in storage: \<open>Stringified j\<close> is the text \<^verbatim>\<open>JSON.stringify\<close> produces
  for the document \<open>j\<close>; \<open>Text s\<close> is any string given by its characters (the active
  clinic id is stored that way).
\<close>

datatype 'n stored = Text string | Stringified "'n json"

text \<open>Truthiness of \<^verbatim>\<open>string | null\<close>: neither \<^verbatim>\<open>null\<close> nor the empty string.\<close>

fun truthy :: "'n stored option \<Rightarrow> bool" where
  "truthy None = False"
| "truthy (Some (Text s)) = (s \<noteq> [])"
| "truthy (Some (Stringified j)) = True"

datatype error = StorageError | Unmodelled

text \<open>
  \<^verbatim>\<open>AsyncStorage\<close>: the stored items, the keys at which the store rejects a read and
  those at which it rejects a write (the failures that the \<^verbatim>\<open>try\<close>/\<^verbatim>\<open>catch\<close> blocks
  of the stores swallow).
\<close>

record 'n AsyncStorage =
  items :: "string \<rightharpoonup> 'n stored"
  rejectsGet :: "string \<Rightarrow> bool"
  rejectsSet :: "string \<Rightarrow> bool"

definition getItem :: "'n AsyncStorage \<Rightarrow> string \<Rightarrow> error + 'n stored option" where
  "getItem st key = (if rejectsGet st key then Inl StorageError else Inr (items st key))"

definition setItem :: "'n AsyncStorage \<Rightarrow> string \<Rightarrow> 'n stored \<Rightarrow> error + 'n AsyncStorage" where
  "setItem st key val =
     (if rejectsSet st key then Inl StorageError
      else Inr (st\<lparr>items := (items st)(key \<mapsto> val)\<rparr>))"

definition multiGet ::
  "'n AsyncStorage \<Rightarrow> string list \<Rightarrow> error + (string \<times> 'n stored option) list" where
  "multiGet st keys =
     (if list_ex (rejectsGet st) keys then Inl StorageError
      else Inr (map (\<lambda>k. (k, items st k)) keys))"

subsection \<open>How the records are written as JSON\<close>

definition jsonNumber :: "('n \<Rightarrow> bool) \<Rightarrow> 'n \<Rightarrow> 'n json" where
  "jsonNumber isFinite n = (if isFinite n then JNumber n else JNull)"

text \<open>A property list without the properties that are \<^verbatim>\<open>undefined\<close>.\<close>

fun properties :: "(string \<times> 'n json option) list \<Rightarrow> (string \<times> 'n json) list" where
  "properties [] = []"
| "properties ((k, None) # kvs) = properties kvs"
| "properties ((k, Some j) # kvs) = (k, j) # properties kvs"

fun jsonSex :: "Sex \<Rightarrow> 'n json" where
  "jsonSex Male = JString ''Male''"
| "jsonSex Female = JString ''Female''"
| "jsonSex Other = JString ''Other''"

fun jsonStatus :: "Status \<Rightarrow> 'n json" where
  "jsonStatus scheduled = JString ''scheduled''"
| "jsonStatus completed = JString ''completed''"
| "jsonStatus cancelled = JString ''cancelled''"
| "jsonStatus failed = JString ''failed''"

definition jsonPatient :: "('n \<Rightarrow> bool) \<Rightarrow> 'n Patient \<Rightarrow> 'n json" where
  "jsonPatient isFinite p = JObject
     [(''id'', JString (p_id p)),
      (''name'', JString (p_name p)),
      (''age'', jsonNumber isFinite (p_age p)),
      (''sex'', jsonSex (p_sex p)),
      (''phoneNumber'', JString (p_phoneNumber p)),
      (''location'', JString (p_location p)),
      (''allergy'', JString (p_allergy p)),
      (''pastMedicalHistory'', JString (p_pastMedicalHistory p)),
      (''createdAt'', JString (p_createdAt p)),
      (''updatedAt'', JString (p_updatedAt p)),
      (''clinicId'', JString (p_clinicId p))]"

definition jsonVisit :: "('n \<Rightarrow> bool) \<Rightarrow> 'n Visit \<Rightarrow> 'n json" where
  "jsonVisit isFinite v = JObject (properties
     [(''id'', Some (JString (v_id v))),
      (''patientId'', Some (JString (v_patientId v))),
      (''patientName'', Some (JString (v_patientName v))),
      (''complaints'', Some (JString (v_complaints v))),
      (''diagnosis'', Some (JString (v_diagnosis v))),
      (''treatment'', Some (JString (v_treatment v))),
      (''fee'', Some (jsonNumber isFinite (v_fee v))),
      (''followUpDate'', map_option JString (v_followUpDate v)),
      (''visitDate'', Some (JString (v_visitDate v))),
      (''clinicId'', Some (JString (v_clinicId v)))])"

definition jsonAppointment :: "Appointment \<Rightarrow> 'n json" where
  "jsonAppointment a = JObject (properties
     [(''id'', Some (JString (a_id a))),
      (''patientId'', Some (JString (a_patientId a))),
      (''patientName'', Some (JString (a_patientName a))),
      (''phoneNumber'', Some (JString (a_phoneNumber a))),
      (''date'', Some (JString (a_date a))),
      (''time'', Some (JString (a_time a))),
      (''status'', Some (jsonStatus (a_status a))),
      (''notes'', map_option JString (a_notes a)),
      (''clinicId'', Some (JString (a_clinicId a)))])"

definition jsonIncomeRecord :: "('n \<Rightarrow> bool) \<Rightarrow> 'n IncomeRecord \<Rightarrow> 'n json" where
  "jsonIncomeRecord isFinite r = JObject
     [(''id'', JString (i_id r)),
      (''visitId'', JString (i_visitId r)),
      (''patientName'', JString (i_patientName r)),
      (''amount'', jsonNumber isFinite (i_amount r)),
      (''date'', JString (i_date r)),
      (''description'', JString (i_description r)),
      (''clinicId'', JString (i_clinicId r))]"

definition jsonExpenseRecord :: "('n \<Rightarrow> bool) \<Rightarrow> 'n ExpenseRecord \<Rightarrow> 'n json" where
  "jsonExpenseRecord isFinite r = JObject
     [(''id'', JString (e_id r)),
      (''amount'', jsonNumber isFinite (e_amount r)),
      (''date'', JString (e_date r)),
      (''description'', JString (e_description r)),
      (''category'', JString (e_category r)),
      (''clinicId'', JString (e_clinicId r))]"

definition jsonClinic :: "Clinic \<Rightarrow> 'n json" where
  "jsonClinic c = JObject
     [(''id'', JString (c_id c)),
      (''name'', JString (c_name c)),
      (''address'', JString (c_address c)),
      (''phoneNumber'', JString (c_phoneNumber c)),
      (''isActive'', JBool (c_isActive c)),
      (''createdAt'', JString (c_createdAt c))]"

text \<open>
  The argument \<^verbatim>\<open>data: any[]\<close> of \<^verbatim>\<open>saveData\<close> is one of the five collections.
\<close>

datatype 'n collection =
    Patients "'n Patient list"
  | Visits "'n Visit list"
  | Appointments "Appointment list"
  | IncomeRecords "'n IncomeRecord list"
  | ExpenseRecords "'n ExpenseRecord list"

fun stringify :: "('n \<Rightarrow> bool) \<Rightarrow> 'n collection \<Rightarrow> 'n stored" where
  "stringify isFinite (Patients xs) = Stringified (JArray (map (jsonPatient isFinite) xs))"
| "stringify isFinite (Visits xs) = Stringified (JArray (map (jsonVisit isFinite) xs))"
| "stringify isFinite (Appointments xs) = Stringified (JArray (map jsonAppointment xs))"
| "stringify isFinite (IncomeRecords xs) =
     Stringified (JArray (map (jsonIncomeRecord isFinite) xs))"
| "stringify isFinite (ExpenseRecords xs) =
     Stringified (JArray (map (jsonExpenseRecord isFinite) xs))"

subsection \<open>Reading the collections back\<close>

text \<open>
  \<^verbatim>\<open>JSON.parse\<close> gives back the document of a text that \<^verbatim>\<open>JSON.stringify\<close> wrote.
  What it does with a string known only by its characters is outside the model.
\<close>

fun parse :: "'n stored \<Rightarrow> error + 'n json" where
  "parse (Stringified j) = Inr j"
| "parse (Text s) = Inl Unmodelled"

text \<open>
  The stores put the parsed value into their state without checking it. The state of the
  model holds records, so the parsed document is read at the declared type. A field
  declared \<^verbatim>\<open>number\<close> holds \<^verbatim>\<open>null\<close> after the load where the document has
  \<^verbatim>\<open>null\<close>: the type \<open>'n\<close> stands for what such a field can hold, and \<open>null\<close>, a
  parameter of the readers, is that value. A document that is not of the declared type in
  another way has no counterpart in the model's state.
\<close>

fun asString :: "'n json option \<Rightarrow> string option" where
  "asString (Some (JString s)) = Some s"
| "asString _ = None"

fun asOptionalString :: "'n json option \<Rightarrow> string option option" where
  "asOptionalString None = Some None"
| "asOptionalString (Some (JString s)) = Some (Some s)"
| "asOptionalString _ = None"

fun asNumber :: "'n \<Rightarrow> 'n json option \<Rightarrow> 'n option" where
  "asNumber null (Some (JNumber n)) = Some n"
| "asNumber null (Some JNull) = Some null"
| "asNumber null _ = None"

fun asBool :: "'n json option \<Rightarrow> bool option" where
  "asBool (Some (JBool b)) = Some b"
| "asBool _ = None"

fun asSex :: "'n json option \<Rightarrow> Sex option" where
  "asSex (Some (JString s)) =
     (if s = ''Male'' then Some Male
      else if s = ''Female'' then Some Female
      else if s = ''Other'' then Some Other
      else None)"
| "asSex _ = None"

fun asStatus :: "'n json option \<Rightarrow> Status option" where
  "asStatus (Some (JString s)) =
     (if s = ''scheduled'' then Some scheduled
      else if s = ''completed'' then Some completed
      else if s = ''cancelled'' then Some cancelled
      else if s = ''failed'' then Some failed
      else None)"
| "asStatus _ = None"

fun asPatient :: "'n \<Rightarrow> 'n json \<Rightarrow> 'n Patient option" where
  "asPatient null (JObject kvs) = do {
     ident \<leftarrow> asString (map_of kvs ''id'');
     name \<leftarrow> asString (map_of kvs ''name'');
     age \<leftarrow> asNumber null (map_of kvs ''age'');
     sex \<leftarrow> asSex (map_of kvs ''sex'');
     phoneNumber \<leftarrow> asString (map_of kvs ''phoneNumber'');
     location \<leftarrow> asString (map_of kvs ''location'');
     allergy \<leftarrow> asString (map_of kvs ''allergy'');
     pastMedicalHistory \<leftarrow> asString (map_of kvs ''pastMedicalHistory'');
     createdAt \<leftarrow> asString (map_of kvs ''createdAt'');
     updatedAt \<leftarrow> asString (map_of kvs ''updatedAt'');
     clinicId \<leftarrow> asString (map_of kvs ''clinicId'');
     Some \<lparr>p_id = ident, p_name = name, p_age = age, p_sex = sex,
           p_phoneNumber = phoneNumber, p_location = location, p_allergy = allergy,
           p_pastMedicalHistory = pastMedicalHistory, p_createdAt = createdAt,
           p_updatedAt = updatedAt, p_clinicId = clinicId\<rparr>
   }"
| "asPatient null _ = None"

fun asVisit :: "'n \<Rightarrow> 'n json \<Rightarrow> 'n Visit option" where
  "asVisit null (JObject kvs) = do {
     ident \<leftarrow> asString (map_of kvs ''id'');
     patientId \<leftarrow> asString (map_of kvs ''patientId'');
     patientName \<leftarrow> asString (map_of kvs ''patientName'');
     complaints \<leftarrow> asString (map_of kvs ''complaints'');
     diagnosis \<leftarrow> asString (map_of kvs ''diagnosis'');
     treatment \<leftarrow> asString (map_of kvs ''treatment'');
     fee \<leftarrow> asNumber null (map_of kvs ''fee'');
     followUpDate \<leftarrow> asOptionalString (map_of kvs ''followUpDate'');
     visitDate \<leftarrow> asString (map_of kvs ''visitDate'');
     clinicId \<leftarrow> asString (map_of kvs ''clinicId'');
     Some \<lparr>v_id = ident, v_patientId = patientId, v_patientName = patientName,
           v_complaints = complaints, v_diagnosis = diagnosis, v_treatment = treatment,
           v_fee = fee, v_followUpDate = followUpDate, v_visitDate = visitDate,
           v_clinicId = clinicId\<rparr>
   }"
| "asVisit null _ = None"

fun asAppointment :: "'n json \<Rightarrow> Appointment option" where
  "asAppointment (JObject kvs) = do {
     ident \<leftarrow> asString (map_of kvs ''id'');
     patientId \<leftarrow> asString (map_of kvs ''patientId'');
     patientName \<leftarrow> asString (map_of kvs ''patientName'');
     phoneNumber \<leftarrow> asString (map_of kvs ''phoneNumber'');
     date \<leftarrow> asString (map_of kvs ''date'');
     time \<leftarrow> asString (map_of kvs ''time'');
     status \<leftarrow> asStatus (map_of kvs ''status'');
     notes \<leftarrow> asOptionalString (map_of kvs ''notes'');
     clinicId \<leftarrow> asString (map_of kvs ''clinicId'');
     Some \<lparr>a_id = ident, a_patientId = patientId, a_patientName = patientName,
           a_phoneNumber = phoneNumber, a_date = date, a_time = time, a_status = status,
           a_notes = notes, a_clinicId = clinicId\<rparr>
   }"
| "asAppointment _ = None"

fun asIncomeRecord :: "'n \<Rightarrow> 'n json \<Rightarrow> 'n IncomeRecord option" where
  "asIncomeRecord null (JObject kvs) = do {
     ident \<leftarrow> asString (map_of kvs ''id'');
     visitId \<leftarrow> asString (map_of kvs ''visitId'');
     patientName \<leftarrow> asString (map_of kvs ''patientName'');
     amount \<leftarrow> asNumber null (map_of kvs ''amount'');
     date \<leftarrow> asString (map_of kvs ''date'');
     description \<leftarrow> asString (map_of kvs ''description'');
     clinicId \<leftarrow> asString (map_of kvs ''clinicId'');
     Some \<lparr>i_id = ident, i_visitId = visitId, i_patientName = patientName,
           i_amount = amount, i_date = date, i_description = description,
           i_clinicId = clinicId\<rparr>
   }"
| "asIncomeRecord null _ = None"

fun asExpenseRecord :: "'n \<Rightarrow> 'n json \<Rightarrow> 'n ExpenseRecord option" where
  "asExpenseRecord null (JObject kvs) = do {
     ident \<leftarrow> asString (map_of kvs ''id'');
     amount \<leftarrow> asNumber null (map_of kvs ''amount'');
     date \<leftarrow> asString (map_of kvs ''date'');
     description \<leftarrow> asString (map_of kvs ''description'');
     category \<leftarrow> asString (map_of kvs ''category'');
     clinicId \<leftarrow> asString (map_of kvs ''clinicId'');
     Some \<lparr>e_id = ident, e_amount = amount, e_date = date, e_description = description,
           e_category = category, e_clinicId = clinicId\<rparr>
   }"
| "asExpenseRecord null _ = None"

fun asClinic :: "'n json \<Rightarrow> Clinic option" where
  "asClinic (JObject kvs) = do {
     ident \<leftarrow> asString (map_of kvs ''id'');
     name \<leftarrow> asString (map_of kvs ''name'');
     address \<leftarrow> asString (map_of kvs ''address'');
     phoneNumber \<leftarrow> asString (map_of kvs ''phoneNumber'');
     isActive \<leftarrow> asBool (map_of kvs ''isActive'');
     createdAt \<leftarrow> asString (map_of kvs ''createdAt'');
     Some \<lparr>c_id = ident, c_name = name, c_address = address, c_phoneNumber = phoneNumber,
           c_isActive = isActive, c_createdAt = createdAt\<rparr>
   }"
| "asClinic _ = None"

text \<open>An array whose every element reads at the given type.\<close>

fun asArray :: "('n json \<Rightarrow> 'a option) \<Rightarrow> 'n json \<Rightarrow> 'a list option" where
  "asArray elem (JArray js) = those (map elem js)"
| "asArray elem _ = None"

section \<open>Data Store (src/contexts/DataContext.tsx)\<close>

record 'n DataState =
  patients :: "'n Patient list"
  visits :: "'n Visit list"
  appointments :: "Appointment list"
  incomeRecords :: "'n IncomeRecord list"
  expenseRecords :: "'n ExpenseRecord list"
  loading :: bool
  storage :: "'n AsyncStorage"

text \<open>
  \<^verbatim>\<open>saveData\<close>: a rejected write is caught and logged, and the caller goes on.
\<close>

definition saveData ::
  "('n \<Rightarrow> bool) \<Rightarrow> string \<Rightarrow> 'n collection \<Rightarrow> 'n DataState \<Rightarrow> 'n DataState" where
  "saveData isFinite key data s =
     (case setItem (storage s) key (stringify isFinite data) of
        Inl e \<Rightarrow> s
      | Inr st \<Rightarrow> s\<lparr>storage := st\<rparr>)"

text \<open>
  \<^verbatim>\<open>addPatient\<close>. The argument has type \<^verbatim>\<open>Omit<Patient, 'id' | 'createdAt' | 'updatedAt'>\<close>;
  the object literal \<^verbatim>\<open>{...patientData, id: ..., createdAt: ..., updatedAt: ...}\<close> writes
  the three fields after the spread, so the model takes a Patient and overwrites them.
  \<open>now\<close> is \<^verbatim>\<open>Date.now()\<close>, \<open>nowISO1\<close> and \<open>nowISO2\<close> are the two readings of
  \<^verbatim>\<open>new Date().toISOString()\<close>. The other \<^verbatim>\<open>add\<close> operations follow the same pattern.
\<close>

definition addPatient ::
  "('n \<Rightarrow> bool) \<Rightarrow> nat \<Rightarrow> string \<Rightarrow> string \<Rightarrow> 'n Patient \<Rightarrow> 'n DataState \<Rightarrow> 'n DataState" where
  "addPatient isFinite now nowISO1 nowISO2 patientData s =
     (let newPatient = patientData\<lparr>p_id := toString now, p_createdAt := nowISO1, p_updatedAt := nowISO2\<rparr>;
          updatedPatients = patients s @ [newPatient]
      in saveData isFinite ''patients'' (Patients updatedPatients)
           (s\<lparr>patients := updatedPatients\<rparr>))"

text \<open>
  The object spread \<^verbatim>\<open>{ ...record, ...updates }\<close>, field by field: an absent property
  leaves the field, a property with a value replaces it, and a property that is
  \<^verbatim>\<open>undefined\<close> makes the field \<^verbatim>\<open>undefined\<close>. Only an optional field can hold
  \<^verbatim>\<open>undefined\<close> in the records of the model; for any other field the result is \<open>None\<close>:
  the object is no longer of the declared type.
\<close>

fun assign :: "'a \<Rightarrow> 'a property \<Rightarrow> 'a option" where
  "assign old Absent = Some old"
| "assign old Undefined = None"
| "assign old (Value v) = Some v"

fun assignOptional :: "'a option \<Rightarrow> 'a property \<Rightarrow> 'a option option" where
  "assignOptional old Absent = Some old"
| "assignOptional old Undefined = Some None"
| "assignOptional old (Value v) = Some (Some v)"

definition spreadPatient :: "'n Patient \<Rightarrow> 'n PatientUpdates \<Rightarrow> 'n Patient option" where
  "spreadPatient p u = do {
     ident \<leftarrow> assign (p_id p) (pu_id u);
     name \<leftarrow> assign (p_name p) (pu_name u);
     age \<leftarrow> assign (p_age p) (pu_age u);
     sex \<leftarrow> assign (p_sex p) (pu_sex u);
     phoneNumber \<leftarrow> assign (p_phoneNumber p) (pu_phoneNumber u);
     location \<leftarrow> assign (p_location p) (pu_location u);
     allergy \<leftarrow> assign (p_allergy p) (pu_allergy u);
     pastMedicalHistory \<leftarrow> assign (p_pastMedicalHistory p) (pu_pastMedicalHistory u);
     createdAt \<leftarrow> assign (p_createdAt p) (pu_createdAt u);
     updatedAt \<leftarrow> assign (p_updatedAt p) (pu_updatedAt u);
     clinicId \<leftarrow> assign (p_clinicId p) (pu_clinicId u);
     Some \<lparr>p_id = ident, p_name = name, p_age = age, p_sex = sex,
           p_phoneNumber = phoneNumber, p_location = location, p_allergy = allergy,
           p_pastMedicalHistory = pastMedicalHistory, p_createdAt = createdAt,
           p_updatedAt = updatedAt, p_clinicId = clinicId\<rparr>
   }"

text \<open>
  \<^verbatim>\<open>updatePatient\<close>. The callback of \<^verbatim>\<open>patients.map\<close> reads the clock for every patient
  whose id matches: \<open>nowISO i\<close> is \<^verbatim>\<open>new Date().toISOString()\<close> as read for the patient at
  position \<open>i\<close>. The literal \<^verbatim>\<open>{ ...patient, ...updates, updatedAt: ... }\<close> writes
  \<^verbatim>\<open>updatedAt\<close> after the spread, whatever \<open>updates\<close> holds for it. Where a patient
  would no longer be of type Patient, the model stops with \<open>Unmodelled\<close>.
\<close>

definition updatePatient ::
  "('n \<Rightarrow> bool) \<Rightarrow> (nat \<Rightarrow> string) \<Rightarrow> string \<Rightarrow> 'n PatientUpdates \<Rightarrow> 'n DataState
   \<Rightarrow> error + 'n DataState" where
  "updatePatient isFinite nowISO ident updates s =
     (case those
        (map (\<lambda>(i, patient).
                if p_id patient = ident
                then spreadPatient patient (updates\<lparr>pu_updatedAt := Value (nowISO i)\<rparr>)
                else Some patient)
             (enumerate 0 (patients s))) of
        None \<Rightarrow> Inl Unmodelled
      | Some updatedPatients \<Rightarrow>
          Inr (saveData isFinite ''patients'' (Patients updatedPatients)
                 (s\<lparr>patients := updatedPatients\<rparr>)))"

text \<open>
  \<^verbatim>\<open>addVisit\<close>. \<open>now1\<close> is the reading of \<^verbatim>\<open>Date.now()\<close> for the visit's id and
  \<open>now2\<close> the later one for the income record's id.
\<close>

definition addVisit ::
  "('n \<Rightarrow> bool) \<Rightarrow> nat \<Rightarrow> nat \<Rightarrow> 'n Visit \<Rightarrow> 'n DataState \<Rightarrow> 'n DataState" where
  "addVisit isFinite now1 now2 visitData s =
     (let newVisit = visitData\<lparr>v_id := toString now1\<rparr>;
          updatedVisits = visits s @ [newVisit];
          s1 = saveData isFinite ''visits'' (Visits updatedVisits) (s\<lparr>visits := updatedVisits\<rparr>);
          incomeRecord =
            \<lparr>i_id = toString now2 @ ''_income'',
             i_visitId = v_id newVisit,
             i_patientName = v_patientName visitData,
             i_amount = v_fee visitData,
             i_date = v_visitDate visitData,
             i_description = ''Visit fee - '' @ v_patientName visitData,
             i_clinicId = v_clinicId visitData\<rparr>;
          updatedIncomeRecords = incomeRecords s @ [incomeRecord]
      in saveData isFinite ''incomeRecords'' (IncomeRecords updatedIncomeRecords)
           (s1\<lparr>incomeRecords := updatedIncomeRecords\<rparr>))"

definition addAppointment ::
  "('n \<Rightarrow> bool) \<Rightarrow> nat \<Rightarrow> Appointment \<Rightarrow> 'n DataState \<Rightarrow> 'n DataState" where
  "addAppointment isFinite now appointmentData s =
     (let newAppointment = appointmentData\<lparr>a_id := toString now\<rparr>;
          updatedAppointments = appointments s @ [newAppointment]
      in saveData isFinite ''appointments'' (Appointments updatedAppointments)
           (s\<lparr>appointments := updatedAppointments\<rparr>))"

definition spreadAppointment :: "Appointment \<Rightarrow> AppointmentUpdates \<Rightarrow> Appointment option" where
  "spreadAppointment a u = do {
     ident \<leftarrow> assign (a_id a) (au_id u);
     patientId \<leftarrow> assign (a_patientId a) (au_patientId u);
     patientName \<leftarrow> assign (a_patientName a) (au_patientName u);
     phoneNumber \<leftarrow> assign (a_phoneNumber a) (au_phoneNumber u);
     date \<leftarrow> assign (a_date a) (au_date u);
     time \<leftarrow> assign (a_time a) (au_time u);
     status \<leftarrow> assign (a_status a) (au_status u);
     notes \<leftarrow> assignOptional (a_notes a) (au_notes u);
     clinicId \<leftarrow> assign (a_clinicId a) (au_clinicId u);
     Some \<lparr>a_id = ident, a_patientId = patientId, a_patientName = patientName,
           a_phoneNumber = phoneNumber, a_date = date, a_time = time, a_status = status,
           a_notes = notes, a_clinicId = clinicId\<rparr>
   }"

definition updateAppointment ::
  "('n \<Rightarrow> bool) \<Rightarrow> string \<Rightarrow> AppointmentUpdates \<Rightarrow> 'n DataState \<Rightarrow> error + 'n DataState" where
  "updateAppointment isFinite ident updates s =
     (case those
        (map (\<lambda>appointment.
                if a_id appointment = ident then spreadAppointment appointment updates
                else Some appointment)
             (appointments s)) of
        None \<Rightarrow> Inl Unmodelled
      | Some updatedAppointments \<Rightarrow>
          Inr (saveData isFinite ''appointments'' (Appointments updatedAppointments)
                 (s\<lparr>appointments := updatedAppointments\<rparr>)))"

definition addExpense ::
  "('n \<Rightarrow> bool) \<Rightarrow> nat \<Rightarrow> 'n ExpenseRecord \<Rightarrow> 'n DataState \<Rightarrow> 'n DataState" where
  "addExpense isFinite now expenseData s =
     (let newExpense = expenseData\<lparr>e_id := toString now\<rparr>;
          updatedExpenses = expenseRecords s @ [newExpense]
      in saveData isFinite ''expenseRecords'' (ExpenseRecords updatedExpenses)
           (s\<lparr>expenseRecords := updatedExpenses\<rparr>))"

definition spreadExpense :: "'n ExpenseRecord \<Rightarrow> 'n ExpenseUpdates \<Rightarrow> 'n ExpenseRecord option" where
  "spreadExpense e u = do {
     ident \<leftarrow> assign (e_id e) (eu_id u);
     amount \<leftarrow> assign (e_amount e) (eu_amount u);
     date \<leftarrow> assign (e_date e) (eu_date u);
     description \<leftarrow> assign (e_description e) (eu_description u);
     category \<leftarrow> assign (e_category e) (eu_category u);
     clinicId \<leftarrow> assign (e_clinicId e) (eu_clinicId u);
     Some \<lparr>e_id = ident, e_amount = amount, e_date = date, e_description = description,
           e_category = category, e_clinicId = clinicId\<rparr>
   }"

definition updateExpense ::
  "('n \<Rightarrow> bool) \<Rightarrow> string \<Rightarrow> 'n ExpenseUpdates \<Rightarrow> 'n DataState \<Rightarrow> error + 'n DataState" where
  "updateExpense isFinite ident updates s =
     (case those
        (map (\<lambda>expense.
                if e_id expense = ident then spreadExpense expense updates else Some expense)
             (expenseRecords s)) of
        None \<Rightarrow> Inl Unmodelled
      | Some updatedExpenses \<Rightarrow>
          Inr (saveData isFinite ''expenseRecords'' (ExpenseRecords updatedExpenses)
                 (s\<lparr>expenseRecords := updatedExpenses\<rparr>)))"

definition deleteExpense :: "('n \<Rightarrow> bool) \<Rightarrow> string \<Rightarrow> 'n DataState \<Rightarrow> 'n DataState" where
  "deleteExpense isFinite ident s =
     (let updatedExpenses = filter (\<lambda>expense. e_id expense \<noteq> ident) (expenseRecords s)
      in saveData isFinite ''expenseRecords'' (ExpenseRecords updatedExpenses)
           (s\<lparr>expenseRecords := updatedExpenses\<rparr>))"

text \<open>\<^verbatim>\<open>syncData\<close> only logs a message.\<close>

definition syncData :: "'n DataState \<Rightarrow> 'n DataState" where
  "syncData s = s"

text \<open>
  \<^verbatim>\<open>loadData\<close>. The callback of \<^verbatim>\<open>results.forEach\<close> is \<open>loadEntry\<close>. It parses the
  value of a key and sets the collection of that key to what it parsed, unchecked, and
  \<open>forEach\<close> goes on with the next key. What is loaded is the state together with the
  keys whose parsed value is not of the declared type: the program holds that value in
  the collection, the state of the model cannot, and its collection of such a key says
  nothing about the program's. The load stops only where \<^verbatim>\<open>JSON.parse\<close> is applied to a
  string of which the model has the characters only: an exception would end the loop
  there.
\<close>

record 'n Load =
  l_state :: "'n DataState"
  l_illTyped :: "string list"

definition setLoaded ::
  "string \<Rightarrow> ('n DataState \<Rightarrow> 'n DataState) option \<Rightarrow> 'n Load \<Rightarrow> 'n Load" where
  "setLoaded key assignment ld =
     (case assignment of
        None \<Rightarrow> ld\<lparr>l_illTyped := l_illTyped ld @ [key]\<rparr>
      | Some put \<Rightarrow> ld\<lparr>l_state := put (l_state ld)\<rparr>)"

definition loadEntry :: "'n \<Rightarrow> string \<times> 'n stored option \<Rightarrow> 'n Load \<Rightarrow> error + 'n Load" where
  "loadEntry null entry ld =
     (case entry of (key, val) \<Rightarrow>
        if truthy val then
          (case parse (the val) of
             Inl e \<Rightarrow> Inl e
           | Inr data \<Rightarrow>
               if key = ''patients'' then
                 Inr (setLoaded key
                   (map_option (\<lambda>xs s. s\<lparr>patients := xs\<rparr>) (asArray (asPatient null) data)) ld)
               else if key = ''visits'' then
                 Inr (setLoaded key
                   (map_option (\<lambda>xs s. s\<lparr>visits := xs\<rparr>) (asArray (asVisit null) data)) ld)
               else if key = ''appointments'' then
                 Inr (setLoaded key
                   (map_option (\<lambda>xs s. s\<lparr>appointments := xs\<rparr>) (asArray asAppointment data)) ld)
               else if key = ''incomeRecords'' then
                 Inr (setLoaded key
                   (map_option (\<lambda>xs s. s\<lparr>incomeRecords := xs\<rparr>)
                      (asArray (asIncomeRecord null) data)) ld)
               else if key = ''expenseRecords'' then
                 Inr (setLoaded key
                   (map_option (\<lambda>xs s. s\<lparr>expenseRecords := xs\<rparr>)
                      (asArray (asExpenseRecord null) data)) ld)
               else Inr ld)
        else Inr ld)"

fun forEach :: "('a \<Rightarrow> 's \<Rightarrow> error + 's) \<Rightarrow> 'a list \<Rightarrow> 's \<Rightarrow> error + 's" where
  "forEach callback [] s = Inr s"
| "forEach callback (x # xs) s =
     (case callback x s of Inl e \<Rightarrow> Inl e | Inr s' \<Rightarrow> forEach callback xs s')"

definition keys :: "string list" where
  "keys = [''patients'', ''visits'', ''appointments'', ''incomeRecords'', ''expenseRecords'']"

definition loadData :: "'n \<Rightarrow> 'n DataState \<Rightarrow> error + 'n Load" where
  "loadData null s =
     (case multiGet (storage s) keys of
        Inl e \<Rightarrow> Inr \<lparr>l_state = s\<lparr>loading := False\<rparr>, l_illTyped = []\<rparr>
      | Inr results \<Rightarrow>
          (case forEach (loadEntry null) results \<lparr>l_state = s, l_illTyped = []\<rparr> of
             Inl e \<Rightarrow> Inl e
           | Inr ld \<Rightarrow> Inr (ld\<lparr>l_state := (l_state ld)\<lparr>loading := False\<rparr>\<rparr>)))"

text \<open>The state of \<^verbatim>\<open>DataProvider\<close> when the application starts on a given storage.\<close>

definition initialData :: "'n AsyncStorage \<Rightarrow> 'n DataState" where
  "initialData st =
     \<lparr>patients = [], visits = [], appointments = [], incomeRecords = [],
      expenseRecords = [], loading = True, storage = st\<rparr>"

text \<open>
  The operations of \<^verbatim>\<open>DataContextType\<close>, each with the clock readings it takes.
  \<open>applyOp\<close> is an operation as its callback computes it from the state that the
  callback sees.
\<close>

datatype 'n DataOp =
    AddPatient nat string string "'n Patient"
  | UpdatePatient "nat \<Rightarrow> string" string "'n PatientUpdates"
  | AddVisit nat nat "'n Visit"
  | AddAppointment nat Appointment
  | UpdateAppointment string AppointmentUpdates
  | AddExpense nat "'n ExpenseRecord"
  | UpdateExpense string "'n ExpenseUpdates"
  | DeleteExpense string
  | SyncData

fun applyOp :: "('n \<Rightarrow> bool) \<Rightarrow> 'n DataOp \<Rightarrow> 'n DataState \<Rightarrow> error + 'n DataState" where
  "applyOp isFinite (AddPatient now nowISO1 nowISO2 patientData) s =
     Inr (addPatient isFinite now nowISO1 nowISO2 patientData s)"
| "applyOp isFinite (UpdatePatient nowISO ident updates) s =
     updatePatient isFinite nowISO ident updates s"
| "applyOp isFinite (AddVisit now1 now2 visitData) s =
     Inr (addVisit isFinite now1 now2 visitData s)"
| "applyOp isFinite (AddAppointment now appointmentData) s =
     Inr (addAppointment isFinite now appointmentData s)"
| "applyOp isFinite (UpdateAppointment ident updates) s =
     updateAppointment isFinite ident updates s"
| "applyOp isFinite (AddExpense now expenseData) s =
     Inr (addExpense isFinite now expenseData s)"
| "applyOp isFinite (UpdateExpense ident updates) s = updateExpense isFinite ident updates s"
| "applyOp isFinite (DeleteExpense ident) s = Inr (deleteExpense isFinite ident s)"
| "applyOp isFinite SyncData s = Inr (syncData s)"

text \<open>
  A callback of \<^verbatim>\<open>DataProvider\<close> closes over the collections of the render that created
  it, and \<^verbatim>\<open>setPatients(updatedPatients)\<close> and its like replace one collection of the
  current state by what the callback computed; the storage is shared. So a call has two
  states: \<open>captured\<close>, the state of the render whose callback is called, and \<open>current\<close>,
  the state at the time of the call. \<open>commit\<close> puts the collections that the operation
  sets, and the storage, into the current state.
\<close>

fun commit :: "'n DataOp \<Rightarrow> 'n DataState \<Rightarrow> 'n DataState \<Rightarrow> 'n DataState" where
  "commit (AddPatient now nowISO1 nowISO2 patientData) result current =
     current\<lparr>patients := patients result, storage := storage result\<rparr>"
| "commit (UpdatePatient nowISO ident updates) result current =
     current\<lparr>patients := patients result, storage := storage result\<rparr>"
| "commit (AddVisit now1 now2 visitData) result current =
     current\<lparr>visits := visits result, incomeRecords := incomeRecords result,
              storage := storage result\<rparr>"
| "commit (AddAppointment now appointmentData) result current =
     current\<lparr>appointments := appointments result, storage := storage result\<rparr>"
| "commit (UpdateAppointment ident updates) result current =
     current\<lparr>appointments := appointments result, storage := storage result\<rparr>"
| "commit (AddExpense now expenseData) result current =
     current\<lparr>expenseRecords := expenseRecords result, storage := storage result\<rparr>"
| "commit (UpdateExpense ident updates) result current =
     current\<lparr>expenseRecords := expenseRecords result, storage := storage result\<rparr>"
| "commit (DeleteExpense ident) result current =
     current\<lparr>expenseRecords := expenseRecords result, storage := storage result\<rparr>"
| "commit SyncData result current = current"

definition call ::
  "('n \<Rightarrow> bool) \<Rightarrow> 'n DataOp \<Rightarrow> 'n DataState \<Rightarrow> 'n DataState \<Rightarrow> error + 'n DataState" where
  "call isFinite op captured current =
     (case applyOp isFinite op (captured\<lparr>storage := storage current\<rparr>) of
        Inl e \<Rightarrow> Inl e
      | Inr result \<Rightarrow> Inr (commit op result current))"

text \<open>
  A sequence of calls, each with the state its callback captured (any state: the callback
  of any render may be called). \<open>steps\<close> lists, call by call, the captured state, the
  state before the call and the state after it, as far as the model goes.
\<close>

fun steps ::
  "('n \<Rightarrow> bool) \<Rightarrow> ('n DataOp \<times> 'n DataState) list \<Rightarrow> 'n DataState
   \<Rightarrow> ('n DataState \<times> 'n DataState \<times> 'n DataState) list" where
  "steps isFinite [] current = []"
| "steps isFinite ((op, captured) # calls) current =
     (case call isFinite op captured current of
        Inl e \<Rightarrow> []
      | Inr after \<Rightarrow> (captured, current, after) # steps isFinite calls after)"

section \<open>Derived views\<close>

text \<open>
  \<^verbatim>\<open>x.clinicId === activeClinic?.id\<close>: with no active clinic the right-hand side is
  \<^verbatim>\<open>undefined\<close>, which no string equals.
\<close>

definition ofActiveClinic :: "Clinic option \<Rightarrow> string \<Rightarrow> bool" where
  "ofActiveClinic activeClinic clinicId =
     (case activeClinic of None \<Rightarrow> False | Some c \<Rightarrow> clinicId = c_id c)"

subsection \<open>Monthly financial summary (src/app/(tabs)/financial.tsx)\<close>






subsection \<open>Appointment counters (dashboard screen, second part of src/contexts/DataContext.tsx)\<close>


definition clinicAppointments :: "Clinic option \<Rightarrow> Appointment list \<Rightarrow> Appointment list" where
  "clinicAppointments activeClinic apts =
     filter (\<lambda>apt. ofActiveClinic activeClinic (a_clinicId apt)) apts"


subsection \<open>Upcoming appointments (calendar screen, src/unnamed/part_002)\<close>

text \<open>
  \<^verbatim>\<open>Array.prototype.sort\<close> with a comparison function: a stable sort, here by insertion.
  \<open>x\<close> goes before the first element that it does not follow (\<open>cmp x y \<le> 0\<close>).
\<close>

fun insertBy :: "('a \<Rightarrow> 'a \<Rightarrow> int) \<Rightarrow> 'a \<Rightarrow> 'a list \<Rightarrow> 'a list" where
  "insertBy cmp x [] = [x]"
| "insertBy cmp x (y # ys) = (if cmp x y \<le> 0 then x # y # ys else y # insertBy cmp x ys)"

definition arraySort :: "('a \<Rightarrow> 'a \<Rightarrow> int) \<Rightarrow> 'a list \<Rightarrow> 'a list" where
  "arraySort cmp xs = foldr (insertBy cmp) xs []"

text \<open>
  The comparison function of the source. \<^verbatim>\<open>String.prototype.localeCompare\<close> is the
  platform's collation of strings and a parameter here.
\<close>

definition compareUpcoming :: "(string \<Rightarrow> string \<Rightarrow> int) \<Rightarrow> Appointment \<Rightarrow> Appointment \<Rightarrow> int" where
  "compareUpcoming localeCompare a b =
     (if a_date a = a_date b then localeCompare (a_time a) (a_time b)
      else localeCompare (a_date a) (a_date b))"

definition upcomingAppointments ::
  "(string \<Rightarrow> string \<Rightarrow> int) \<Rightarrow> string \<Rightarrow> Appointment list \<Rightarrow> Appointment list" where
  "upcomingAppointments localeCompare today clinicApts =
     take 10 (arraySort (compareUpcoming localeCompare)
       (filter (\<lambda>apt. today \<le> a_date apt \<and> a_status apt = scheduled) clinicApts))"

section \<open>Clinic Store (ClinicProvider, second part of src/contexts/ThemeContext.tsx)\<close>

record 'n ClinicState =
  clinics :: "Clinic list"
  activeClinic :: "Clinic option"
  cs_loading :: bool
  cs_storage :: "'n AsyncStorage"

text \<open>The characters of a stored string, where the model has them.\<close>

fun characters :: "'n stored \<Rightarrow> error + string" where
  "characters (Text s) = Inr s"
| "characters (Stringified j) = Inl Unmodelled"

text \<open>
  \<^verbatim>\<open>loadClinics\<close>. \<open>now\<close> is \<^verbatim>\<open>Date.now()\<close> and \<open>nowISO\<close> is
  \<^verbatim>\<open>new Date().toISOString()\<close>, read in the branch that creates the default clinic.
  A rejected request of the storage ends the \<^verbatim>\<open>try\<close> block where it happens; the state
  set before it stays.
\<close>

definition defaultClinic :: "nat \<Rightarrow> string \<Rightarrow> Clinic" where
  "defaultClinic now nowISO =
     \<lparr>c_id = toString now, c_name = ''My Clinic'', c_address = [], c_phoneNumber = [],
      c_isActive = True, c_createdAt = nowISO\<rparr>"

definition stringifyClinics :: "Clinic list \<Rightarrow> 'n stored" where
  "stringifyClinics cs = Stringified (JArray (map jsonClinic cs))"

definition loadClinics :: "nat \<Rightarrow> string \<Rightarrow> 'n ClinicState \<Rightarrow> error + 'n ClinicState" where
  "loadClinics now nowISO s =
     (case getItem (cs_storage s) ''clinics'' of
        Inl e \<Rightarrow> Inr (s\<lparr>cs_loading := False\<rparr>)
      | Inr clinicsData \<Rightarrow>
     (case getItem (cs_storage s) ''activeClinicId'' of
        Inl e \<Rightarrow> Inr (s\<lparr>cs_loading := False\<rparr>)
      | Inr activeClinicId \<Rightarrow>
          if truthy clinicsData then
            (case parse (the clinicsData) of
               Inl e \<Rightarrow> Inl e
             | Inr data \<Rightarrow>
            (case asArray asClinic data of
               None \<Rightarrow> Inl Unmodelled
             | Some parsedClinics \<Rightarrow>
                 if truthy activeClinicId then
                   (case characters (the activeClinicId) of
                      Inl e \<Rightarrow> Inl e
                    | Inr ident \<Rightarrow>
                        Inr (s\<lparr>clinics := parsedClinics,
                               activeClinic :=
                                 (case find (\<lambda>c. c_id c = ident) parsedClinics of
                                    Some active \<Rightarrow> Some active
                                  | None \<Rightarrow>
                                      (case parsedClinics of [] \<Rightarrow> None | c # cs \<Rightarrow> Some c)),
                               cs_loading := False\<rparr>))
                 else if length parsedClinics > 0 then
                   Inr (s\<lparr>clinics := parsedClinics, activeClinic := Some (hd parsedClinics),
                          cs_loading := False\<rparr>)
                 else Inr (s\<lparr>clinics := parsedClinics, cs_loading := False\<rparr>)))
          else
            (let dflt = defaultClinic now nowISO;
                 s1 = s\<lparr>clinics := [dflt], activeClinic := Some dflt\<rparr>
             in case setItem (cs_storage s1) ''clinics'' (stringifyClinics [dflt]) of
                  Inl e \<Rightarrow> Inr (s1\<lparr>cs_loading := False\<rparr>)
                | Inr st1 \<Rightarrow>
                    (case setItem st1 ''activeClinicId'' (Text (c_id dflt)) of
                       Inl e \<Rightarrow> Inr (s1\<lparr>cs_storage := st1, cs_loading := False\<rparr>)
                     | Inr st2 \<Rightarrow> Inr (s1\<lparr>cs_storage := st2, cs_loading := False\<rparr>)))))"

text \<open>\<^verbatim>\<open>addClinic\<close>: the whole body is inside \<^verbatim>\<open>try\<close>.\<close>

definition addClinic :: "nat \<Rightarrow> string \<Rightarrow> Clinic \<Rightarrow> 'n ClinicState \<Rightarrow> 'n ClinicState" where
  "addClinic now nowISO clinicData s =
     (let newClinic = clinicData\<lparr>c_id := toString now, c_createdAt := nowISO\<rparr>;
          updatedClinics = clinics s @ [newClinic];
          s1 = s\<lparr>clinics := updatedClinics\<rparr>
      in case setItem (cs_storage s1) ''clinics'' (stringifyClinics updatedClinics) of
           Inl e \<Rightarrow> s1
         | Inr st \<Rightarrow> s1\<lparr>cs_storage := st\<rparr>)"

text \<open>\<^verbatim>\<open>setActiveClinic\<close>.\<close>

definition setActiveClinic :: "string \<Rightarrow> 'n ClinicState \<Rightarrow> 'n ClinicState" where
  "setActiveClinic clinicId s =
     (case find (\<lambda>c. c_id c = clinicId) (clinics s) of
        None \<Rightarrow> s
      | Some clinic \<Rightarrow>
          (let s1 = s\<lparr>activeClinic := Some clinic\<rparr>
           in case setItem (cs_storage s1) ''activeClinicId'' (Text clinicId) of
                Inl e \<Rightarrow> s1
              | Inr st \<Rightarrow> s1\<lparr>cs_storage := st\<rparr>))"

text \<open>The state of \<^verbatim>\<open>ClinicProvider\<close> when the application starts on a given storage.\<close>

definition initialClinics :: "'n AsyncStorage \<Rightarrow> 'n ClinicState" where
  "initialClinics st = \<lparr>clinics = [], activeClinic = None, cs_loading = True, cs_storage = st\<rparr>"

section \<open>Notions used to state the properties\<close>

text \<open>
  No property of an update is \<^verbatim>\<open>undefined\<close> where the record needs a value. The
  \<^verbatim>\<open>updatedAt\<close> of a patient update is left out (\<^verbatim>\<open>updatePatient\<close> writes that field
  itself), and so is the \<^verbatim>\<open>notes\<close> of an appointment update (the field is optional).
\<close>

fun isUndefined :: "'a property \<Rightarrow> bool" where
  "isUndefined Undefined = True"
| "isUndefined _ = False"

definition definedPatientUpdates :: "'n PatientUpdates \<Rightarrow> bool" where
  "definedPatientUpdates u =
     (\<not> isUndefined (pu_id u) \<and> \<not> isUndefined (pu_name u) \<and> \<not> isUndefined (pu_age u)
    \<and> \<not> isUndefined (pu_sex u) \<and> \<not> isUndefined (pu_phoneNumber u)
    \<and> \<not> isUndefined (pu_location u) \<and> \<not> isUndefined (pu_allergy u)
    \<and> \<not> isUndefined (pu_pastMedicalHistory u) \<and> \<not> isUndefined (pu_createdAt u)
    \<and> \<not> isUndefined (pu_clinicId u))"

definition definedAppointmentUpdates :: "AppointmentUpdates \<Rightarrow> bool" where
  "definedAppointmentUpdates u =
     (\<not> isUndefined (au_id u) \<and> \<not> isUndefined (au_patientId u)
    \<and> \<not> isUndefined (au_patientName u) \<and> \<not> isUndefined (au_phoneNumber u)
    \<and> \<not> isUndefined (au_date u) \<and> \<not> isUndefined (au_time u)
    \<and> \<not> isUndefined (au_status u) \<and> \<not> isUndefined (au_clinicId u))"

definition definedExpenseUpdates :: "'n ExpenseUpdates \<Rightarrow> bool" where
  "definedExpenseUpdates u =
     (\<not> isUndefined (eu_id u) \<and> \<not> isUndefined (eu_amount u) \<and> \<not> isUndefined (eu_date u)
    \<and> \<not> isUndefined (eu_description u) \<and> \<not> isUndefined (eu_category u)
    \<and> \<not> isUndefined (eu_clinicId u))"

fun definedOp :: "'n DataOp \<Rightarrow> bool" where
  "definedOp (UpdatePatient nowISO ident updates) = definedPatientUpdates updates"
| "definedOp (UpdateAppointment ident updates) = definedAppointmentUpdates updates"
| "definedOp (UpdateExpense ident updates) = definedExpenseUpdates updates"
| "definedOp _ = True"

text \<open>An operation that leaves the \<^verbatim>\<open>id\<close> property out of a patient update.\<close>

fun keepsPatientId :: "'n DataOp \<Rightarrow> bool" where
  "keepsPatientId (UpdatePatient nowISO ident updates) = (pu_id updates = Absent)"
| "keepsPatientId _ = True"

text \<open>
  What a call does to the ids of the patients: it leaves the collection of patients as it
  was before the call, or its collection begins with the patients that the callback
  captured, each at its position and with its id; what the call added comes after them.
\<close>

definition keepsIds :: "'n DataState \<Rightarrow> 'n DataState \<Rightarrow> 'n DataState \<Rightarrow> bool" where
  "keepsIds captured before after =
     (patients after = patients before
      \<or> prefix (map p_id (patients captured)) (map p_id (patients after)))"

text \<open>
  What the properties ask of \<^verbatim>\<open>localeCompare\<close> on a set of strings. \<open>orderingOn\<close>: its
  sign is reversed when the arguments are exchanged and \<open>\<le> 0\<close> is transitive, so that it
  arranges the strings in a line in which some may tie. \<open>collationOn\<close>: moreover it is
  \<open>0\<close> on equal strings only.
\<close>

definition orderingOn :: "string set \<Rightarrow> (string \<Rightarrow> string \<Rightarrow> int) \<Rightarrow> bool" where
  "orderingOn S localeCompare =
     ((\<forall>x\<in>S. \<forall>y\<in>S. (localeCompare x y < 0) = (0 < localeCompare y x))
    \<and> (\<forall>x\<in>S. \<forall>y\<in>S. \<forall>z\<in>S.
          localeCompare x y \<le> 0 \<and> localeCompare y z \<le> 0 \<longrightarrow> localeCompare x z \<le> 0))"

definition collationOn :: "string set \<Rightarrow> (string \<Rightarrow> string \<Rightarrow> int) \<Rightarrow> bool" where
  "collationOn S localeCompare =
     (orderingOn S localeCompare
    \<and> (\<forall>x\<in>S. \<forall>y\<in>S. (localeCompare x y = 0) = (x = y)))"

text \<open>
  Ascending by date and, within equal dates, ascending by time, both as
  \<^verbatim>\<open>localeCompare\<close> orders strings.
\<close>

definition upcomingOrder :: "(string \<Rightarrow> string \<Rightarrow> int) \<Rightarrow> Appointment \<Rightarrow> Appointment \<Rightarrow> bool" where
  "upcomingOrder localeCompare a b =
     (localeCompare (a_date a) (a_date b) < 0
      \<or> (a_date a = a_date b \<and> localeCompare (a_time a) (a_time b) \<le> 0))"

text \<open>
  Persisting the five collections of a state: the five calls of \<^verbatim>\<open>saveData\<close> that the
  operations of the store make, one for each collection.
\<close>

definition persistAll :: "('n \<Rightarrow> bool) \<Rightarrow> 'n DataState \<Rightarrow> 'n DataState" where
  "persistAll isFinite s =
     saveData isFinite ''expenseRecords'' (ExpenseRecords (expenseRecords s))
       (saveData isFinite ''incomeRecords'' (IncomeRecords (incomeRecords s))
         (saveData isFinite ''appointments'' (Appointments (appointments s))
           (saveData isFinite ''visits'' (Visits (visits s))
             (saveData isFinite ''patients'' (Patients (patients s)) s))))"

section \<open>Sample data\<close>

text \<open>
  Concrete inputs for the examples below. Their numbers are integers, all of them finite,
  and their storage is empty and rejects no request.
\<close>

definition intIsFinite :: "int \<Rightarrow> bool" where
  "intIsFinite n = True"

definition emptyStorage :: "'n AsyncStorage" where
  "emptyStorage =
     \<lparr>items = Map.empty, rejectsGet = (\<lambda>key. False), rejectsSet = (\<lambda>key. False)\<rparr>"

definition janeDoe :: "int Patient" where
  "janeDoe =
     \<lparr>p_id = ''1'', p_name = ''Jane Doe'', p_age = 30, p_sex = Female,
      p_phoneNumber = ''555-0100'', p_location = [], p_allergy = [],
      p_pastMedicalHistory = [], p_createdAt = ''2024-03-15T09:00:00.000Z'',
      p_updatedAt = ''2024-03-15T09:00:00.000Z'', p_clinicId = ''C1''\<rparr>"

definition johnRoe :: "int Patient" where
  "johnRoe = janeDoe\<lparr>p_name := ''John Roe'', p_age := 41, p_sex := Male\<rparr>"

definition janeVisit :: "int Visit" where
  "janeVisit =
     \<lparr>v_id = [], v_patientId = ''1'', v_patientName = ''Jane Doe'', v_complaints = ''cough'',
      v_diagnosis = ''cold'', v_treatment = ''rest'', v_fee = 50, v_followUpDate = None,
      v_visitDate = ''2024-03-15T09:30:00.000Z'', v_clinicId = ''C1''\<rparr>"

definition noUpdates :: "int PatientUpdates" where
  "noUpdates =
     \<lparr>pu_id = Absent, pu_name = Absent, pu_age = Absent, pu_sex = Absent,
      pu_phoneNumber = Absent, pu_location = Absent, pu_allergy = Absent,
      pu_pastMedicalHistory = Absent, pu_createdAt = Absent, pu_updatedAt = Absent,
      pu_clinicId = Absent\<rparr>"

text \<open>A clock that shows the same reading for every record of a call.\<close>

definition clockAt :: "string \<Rightarrow> nat \<Rightarrow> string" where
  "clockAt reading i = reading"

definition onePatient :: "int DataState" where
  "onePatient = (initialData emptyStorage)\<lparr>patients := [janeDoe], loading := False\<rparr>"

definition twoPatients :: "int DataState" where
  "twoPatients = (initialData emptyStorage)\<lparr>patients := [janeDoe, johnRoe], loading := False\<rparr>"






text \<open>A sample of \<^verbatim>\<open>localeCompare\<close>: the comparison by character codes.\<close>

definition codeUnitCompare :: "string \<Rightarrow> string \<Rightarrow> int" where
  "codeUnitCompare x y = (if x < y then - 1 else if x = y then 0 else 1)"

definition clinicOne :: Clinic where
  "clinicOne =
     \<lparr>c_id = ''C1'', c_name = ''My Clinic'', c_address = [], c_phoneNumber = [],
      c_isActive = True, c_createdAt = ''2024-01-01T00:00:00.000Z''\<rparr>"

definition aptMorning :: Appointment where
  "aptMorning =
     \<lparr>a_id = ''11'', a_patientId = ''1'', a_patientName = ''Jane Doe'',
      a_phoneNumber = ''555-0100'', a_date = ''2024-03-15'', a_time = ''09:00 AM'',
      a_status = scheduled, a_notes = None, a_clinicId = ''C1''\<rparr>"

definition aptLater :: Appointment where
  "aptLater = aptMorning\<lparr>a_id := ''12'', a_time := ''10:30 AM''\<rparr>"

definition aptApril :: Appointment where
  "aptApril = aptMorning\<lparr>a_id := ''13'', a_date := ''2024-04-20''\<rparr>"



definition oneClinic :: "int ClinicState" where
  "oneClinic = (initialClinics emptyStorage)\<lparr>clinics := [clinicOne], activeClinic := Some clinicOne,
                 cs_loading := False\<rparr>"

section \<open>The platform's Date on ISO strings\<close>












section \<open>More sample data\<close>



text \<open>
  A sample of \<^verbatim>\<open>localeCompare\<close> in which, as in the default collation of the platform,
  a lower-case letter comes before its upper-case letter and after every letter that
  precedes it in the alphabet; and two appointments whose times differ in case only.
\<close>

definition caseKey :: "char \<Rightarrow> nat" where
  "caseKey c =
     (if CHR ''A'' \<le> c \<and> c \<le> CHR ''Z'' then 2 * (of_char c + 32) + 1 else 2 * of_char c)"

definition dictionaryCompare :: "string \<Rightarrow> string \<Rightarrow> int" where
  "dictionaryCompare x y =
     (if map caseKey x < map caseKey y then - 1
      else if map caseKey x = map caseKey y then 0
      else 1)"

definition aptUpper :: Appointment where
  "aptUpper = aptMorning\<lparr>a_id := ''51'', a_time := ''09:00 AM''\<rparr>"

definition aptLower :: Appointment where
  "aptLower = aptMorning\<lparr>a_id := ''52'', a_time := ''09:00 am''\<rparr>"

text \<open>
  A sample of what a field declared \<^verbatim>\<open>number\<close> can hold: integers, the three numbers
  that are not finite, and \<^verbatim>\<open>null\<close>. A visit whose fee is \<^verbatim>\<open>Infinity\<close> (the fee field
  of the visit form takes the text \<^verbatim>\<open>Infinity\<close>: \<^verbatim>\<open>Number("Infinity")\<close> is not
  \<^verbatim>\<open>NaN\<close>), and a state with that visit, a patient and an expense.
\<close>

datatype number = Finite int | NaN | Infinity | NegativeInfinity | Null

fun Number_isFinite :: "number \<Rightarrow> bool" where
  "Number_isFinite (Finite n) = True"
| "Number_isFinite _ = False"

definition costlyVisit :: "number Visit" where
  "costlyVisit =
     \<lparr>v_id = ''1001'', v_patientId = ''1'', v_patientName = ''Jane Doe'',
      v_complaints = ''cough'', v_diagnosis = ''cold'', v_treatment = ''rest'',
      v_fee = Infinity, v_followUpDate = None, v_visitDate = ''2024-03-15T09:30:00.000Z'',
      v_clinicId = ''C1''\<rparr>"

definition janeNumbered :: "number Patient" where
  "janeNumbered =
     \<lparr>p_id = ''1'', p_name = ''Jane Doe'', p_age = Finite 30, p_sex = Female,
      p_phoneNumber = ''555-0100'', p_location = [], p_allergy = [],
      p_pastMedicalHistory = [], p_createdAt = ''2024-03-15T09:00:00.000Z'',
      p_updatedAt = ''2024-03-15T09:00:00.000Z'', p_clinicId = ''C1''\<rparr>"

definition glovesNumbered :: "number ExpenseRecord" where
  "glovesNumbered =
     \<lparr>e_id = ''21'', e_amount = Finite 20, e_date = ''2024-03-10'', e_description = ''gloves'',
      e_category = ''Supplies'', e_clinicId = ''C1''\<rparr>"

definition costlyRecords :: "number DataState" where
  "costlyRecords =
     (initialData emptyStorage)
       \<lparr>patients := [janeNumbered],
        visits := [costlyVisit],
        appointments := [aptMorning, aptApril\<lparr>a_notes := Some ''Follow-up appointment''\<rparr>],
        expenseRecords := [glovesNumbered],
        loading := False\<rparr>"

text \<open>
  Three calls, all through the callbacks of the render that saw Jane Doe alone: a second
  patient is added, Jane Doe is renamed, a visit is added.
\<close>

definition staleCalls :: "(int DataOp \<times> int DataState) list" where
  "staleCalls =
     [(AddPatient 1003 ''2024-03-17T08:00:00.000Z'' ''2024-03-17T08:00:00.000Z'' johnRoe,
       onePatient),
      (UpdatePatient (clockAt ''2024-03-16T10:00:00.000Z'') ''1''
         (noUpdates\<lparr>pu_name := Value ''Jane Smith''\<rparr>),
       onePatient),
      (AddVisit 1001 1002 janeVisit, onePatient)]"

section \<open>Properties of the Data Store\<close>

text \<open>\<^verbatim>\<open>saveData\<close> touches the storage only.\<close>

lemma saveData_collections:
  "patients (saveData f k d s) = patients s"
  "visits (saveData f k d s) = visits s"
  "appointments (saveData f k d s) = appointments s"
  "incomeRecords (saveData f k d s) = incomeRecords s"
  "expenseRecords (saveData f k d s) = expenseRecords s"
  "loading (saveData f k d s) = loading s"
  by (simp_all add: saveData_def split: sum.split)

lemma toString_examples:
  "toString 1001 = ''1001''" "toString 1002 = ''1002''" "toString 1003 = ''1003''"
  by code_simp+

subsection \<open>Adding a visit\<close>

text \<open>
  C1 (as amended). Every call of \<^verbatim>\<open>addVisit\<close> appends exactly one record to the income
  collection; its amount is the fee of the new visit, its \<^verbatim>\<open>visitId\<close> the id of the new
  visit, its \<^verbatim>\<open>clinicId\<close> the visit's, and its description is \<^verbatim>\<open>"Visit fee - "\<close>
  followed by the patient name of the visit. The visits collection gains the new visit,
  at its end, and nothing else; patients, appointments and expenses stay as they are.
\<close>

theorem addVisit_appends_income_record:
  "let s' = addVisit isFinite now1 now2 visitData s;
       newVisit = last (visits s');
       incomeRecord = last (incomeRecords s')
   in incomeRecords s' = incomeRecords s @ [incomeRecord]
    \<and> visits s' = visits s @ [newVisit]
    \<and> newVisit = visitData\<lparr>v_id := toString now1\<rparr>
    \<and> i_amount incomeRecord = v_fee newVisit
    \<and> i_visitId incomeRecord = v_id newVisit
    \<and> i_clinicId incomeRecord = v_clinicId newVisit
    \<and> i_description incomeRecord = ''Visit fee - '' @ v_patientName newVisit
    \<and> patients s' = patients s
    \<and> appointments s' = appointments s
    \<and> expenseRecords s' = expenseRecords s"
  by (simp add: addVisit_def Let_def saveData_collections)

text \<open>
  The scenario of the specification: a visit of Jane Doe with fee 50 in clinic C1, added
  to an empty store, leaves one income record with amount 50 and the description
  \<^verbatim>\<open>"Visit fee - Jane Doe"\<close>.
\<close>

theorem addVisit_appends_income_record_witness:
  "incomeRecords (addVisit intIsFinite 1001 1002 janeVisit (initialData emptyStorage)) =
     [\<lparr>i_id = ''1002_income'', i_visitId = ''1001'', i_patientName = ''Jane Doe'', i_amount = 50,
       i_date = ''2024-03-15T09:30:00.000Z'', i_description = ''Visit fee - Jane Doe'',
       i_clinicId = ''C1''\<rparr>]"
  using addVisit_appends_income_record
    [of intIsFinite 1001 1002 janeVisit "initialData emptyStorage"]
  by (simp add: addVisit_def Let_def saveData_collections initialData_def janeVisit_def
        toString_examples)

text \<open>
  C1 as stated says that no collection other than the income collection gains a record.
  The visits collection does: after one \<^verbatim>\<open>addVisit\<close> on the empty store it has a record.
\<close>

theorem addVisit_visits_counterexample:
  "length (visits (addVisit intIsFinite 1001 1002 janeVisit (initialData emptyStorage)))
     \<noteq> length (visits (initialData emptyStorage :: int DataState))"
  by (simp add: addVisit_def Let_def saveData_collections initialData_def)

subsection \<open>Updating a patient\<close>

lemma assign_defined:
  "\<not> isUndefined x \<Longrightarrow> assign old x = Some (case x of Value v \<Rightarrow> v | _ \<Rightarrow> old)"
  by (cases x) simp_all

lemma those_map_total: "those (map (\<lambda>x. Some (g x)) xs) = Some (map g xs)"
  by (induction xs) simp_all

lemma spreadPatient_defined:
  assumes "definedPatientUpdates u"
  shows "spreadPatient p (u\<lparr>pu_updatedAt := Value t\<rparr>) =
           Some \<lparr>p_id = (case pu_id u of Value v \<Rightarrow> v | _ \<Rightarrow> p_id p),
                 p_name = (case pu_name u of Value v \<Rightarrow> v | _ \<Rightarrow> p_name p),
                 p_age = (case pu_age u of Value v \<Rightarrow> v | _ \<Rightarrow> p_age p),
                 p_sex = (case pu_sex u of Value v \<Rightarrow> v | _ \<Rightarrow> p_sex p),
                 p_phoneNumber = (case pu_phoneNumber u of Value v \<Rightarrow> v | _ \<Rightarrow> p_phoneNumber p),
                 p_location = (case pu_location u of Value v \<Rightarrow> v | _ \<Rightarrow> p_location p),
                 p_allergy = (case pu_allergy u of Value v \<Rightarrow> v | _ \<Rightarrow> p_allergy p),
                 p_pastMedicalHistory =
                   (case pu_pastMedicalHistory u of Value v \<Rightarrow> v | _ \<Rightarrow> p_pastMedicalHistory p),
                 p_createdAt = (case pu_createdAt u of Value v \<Rightarrow> v | _ \<Rightarrow> p_createdAt p),
                 p_updatedAt = t,
                 p_clinicId = (case pu_clinicId u of Value v \<Rightarrow> v | _ \<Rightarrow> p_clinicId p)\<rparr>"
  using assms by (simp add: spreadPatient_def definedPatientUpdates_def assign_defined)

lemma updatePatient_defined:
  assumes "definedPatientUpdates updates"
  shows "updatePatient isFinite nowISO ident updates s =
           Inr (saveData isFinite ''patients''
                  (Patients (map (\<lambda>(i, patient).
                      if p_id patient = ident
                      then the (spreadPatient patient (updates\<lparr>pu_updatedAt := Value (nowISO i)\<rparr>))
                      else patient) (enumerate 0 (patients s))))
                  (s\<lparr>patients := map (\<lambda>(i, patient).
                      if p_id patient = ident
                      then the (spreadPatient patient (updates\<lparr>pu_updatedAt := Value (nowISO i)\<rparr>))
                      else patient) (enumerate 0 (patients s))\<rparr>))"
proof -
  have "(\<lambda>(i, patient).
           if p_id patient = ident
           then spreadPatient patient (updates\<lparr>pu_updatedAt := Value (nowISO i)\<rparr>)
           else Some patient)
        = (\<lambda>x. Some ((\<lambda>(i, patient).
             if p_id patient = ident
             then the (spreadPatient patient (updates\<lparr>pu_updatedAt := Value (nowISO i)\<rparr>))
             else patient) x))"
    by (auto simp add: fun_eq_iff spreadPatient_defined [OF assms])
  then show ?thesis
    by (simp only: updatePatient_def those_map_total option.case)
qed

text \<open>
  C2 (as amended). Let no property of the update be \<^verbatim>\<open>undefined\<close>. Then
  \<^verbatim>\<open>updatePatient(id, updates)\<close> keeps the number and order of the patients. In a
  patient whose id is \<^verbatim>\<open>id\<close>, every field that \<open>updates\<close> leaves out, other than
  \<^verbatim>\<open>updatedAt\<close>, is unchanged (so a single-field update changes that field and
  \<^verbatim>\<open>updatedAt\<close> at most), and \<^verbatim>\<open>updatedAt\<close> becomes the reading of the clock that the
  call takes for that patient. Every patient with another id is unchanged.
\<close>

theorem updatePatient_frame:
  assumes "definedPatientUpdates updates"
  shows "\<exists>s'. updatePatient isFinite nowISO ident updates s = Inr s'
         \<and> length (patients s') = length (patients s)
         \<and> (\<forall>i < length (patients s).
              let P = patients s ! i; P' = patients s' ! i
              in if p_id P = ident then
                   (pu_id updates = Absent \<longrightarrow> p_id P' = p_id P)
                 \<and> (pu_name updates = Absent \<longrightarrow> p_name P' = p_name P)
                 \<and> (pu_age updates = Absent \<longrightarrow> p_age P' = p_age P)
                 \<and> (pu_sex updates = Absent \<longrightarrow> p_sex P' = p_sex P)
                 \<and> (pu_phoneNumber updates = Absent \<longrightarrow> p_phoneNumber P' = p_phoneNumber P)
                 \<and> (pu_location updates = Absent \<longrightarrow> p_location P' = p_location P)
                 \<and> (pu_allergy updates = Absent \<longrightarrow> p_allergy P' = p_allergy P)
                 \<and> (pu_pastMedicalHistory updates = Absent
                      \<longrightarrow> p_pastMedicalHistory P' = p_pastMedicalHistory P)
                 \<and> (pu_createdAt updates = Absent \<longrightarrow> p_createdAt P' = p_createdAt P)
                 \<and> (pu_clinicId updates = Absent \<longrightarrow> p_clinicId P' = p_clinicId P)
                 \<and> p_updatedAt P' = nowISO i
                 else P' = P)"
  by (simp add: updatePatient_defined [OF assms] saveData_collections Let_def
        nth_enumerate_eq spreadPatient_defined [OF assms])


text \<open>
  Renaming Jane Doe a day after her record was written: her age stays 30 and
  \<^verbatim>\<open>updatedAt\<close> is the new reading, which is later than the old one.
\<close>

theorem updatePatient_frame_witness:
  "definedPatientUpdates (noUpdates\<lparr>pu_name := Value ''Jane Smith''\<rparr>)
   \<and> 0 < length (patients onePatient)
   \<and> p_id (patients onePatient ! 0) = ''1''
   \<and> pu_age (noUpdates\<lparr>pu_name := Value ''Jane Smith''\<rparr>) = Absent
   \<and> map_sum id (map p_age \<circ> patients)
        (updatePatient intIsFinite (clockAt ''2024-03-16T10:00:00.000Z'') ''1''
           (noUpdates\<lparr>pu_name := Value ''Jane Smith''\<rparr>) onePatient) = Inr [30]
   \<and> map_sum id (map p_updatedAt \<circ> patients)
        (updatePatient intIsFinite (clockAt ''2024-03-16T10:00:00.000Z'') ''1''
           (noUpdates\<lparr>pu_name := Value ''Jane Smith''\<rparr>) onePatient)
       = Inr [''2024-03-16T10:00:00.000Z'']
   \<and> p_updatedAt (patients onePatient ! 0) < ''2024-03-16T10:00:00.000Z''"
proof -
  have d: "definedPatientUpdates (noUpdates\<lparr>pu_name := Value ''Jane Smith''\<rparr>)"
    by (simp add: definedPatientUpdates_def noUpdates_def)
  show ?thesis
    using updatePatient_frame [OF d, of intIsFinite "clockAt ''2024-03-16T10:00:00.000Z''" "''1''"
        onePatient] d
    by (simp add: updatePatient_def spreadPatient_def saveData_collections onePatient_def
          janeDoe_def noUpdates_def clockAt_def enumerate_eq_zip upt_rec)
qed

text \<open>
  C2 as stated fails twice on one input. Two patients carry the id \<^verbatim>\<open>"1"\<close> (ids are
  clock readings, and two records made in one millisecond share theirs), and the update
  is made while the clock still shows the reading that \<^verbatim>\<open>updatedAt\<close> holds. Then
  \<^verbatim>\<open>updatedAt\<close> of the first patient does not increase, and the second patient, another
  record, is renamed as well.
\<close>

theorem updatePatient_counterexample:
  "map p_updatedAt (patients twoPatients)
     = [''2024-03-15T09:00:00.000Z'', ''2024-03-15T09:00:00.000Z'']
   \<and> map p_name (patients twoPatients) = [''Jane Doe'', ''John Roe'']
   \<and> map_sum id (map p_updatedAt \<circ> patients)
        (updatePatient intIsFinite (clockAt ''2024-03-15T09:00:00.000Z'') ''1''
           (noUpdates\<lparr>pu_name := Value ''Jane Smith''\<rparr>) twoPatients)
       = Inr [''2024-03-15T09:00:00.000Z'', ''2024-03-15T09:00:00.000Z'']
   \<and> map_sum id (map p_name \<circ> patients)
        (updatePatient intIsFinite (clockAt ''2024-03-15T09:00:00.000Z'') ''1''
           (noUpdates\<lparr>pu_name := Value ''Jane Smith''\<rparr>) twoPatients)
       = Inr [''Jane Smith'', ''Jane Smith'']
   \<and> \<not> ''2024-03-15T09:00:00.000Z'' < ''2024-03-15T09:00:00.000Z''"
  by (simp add: updatePatient_def spreadPatient_def saveData_collections twoPatients_def
        janeDoe_def johnRoe_def noUpdates_def clockAt_def enumerate_eq_zip upt_rec)

subsection \<open>Patient ids\<close>

lemma those_map_ex:
  "list_all (\<lambda>x. \<exists>y. f x = Some y) xs \<Longrightarrow> \<exists>ys. those (map f xs) = Some ys"
  by (induction xs) auto

lemma spreadAppointment_defined:
  assumes "definedAppointmentUpdates u"
  shows "\<exists>a'. spreadAppointment a u = Some a'"
  using assms
  by (cases "au_notes u")
     (simp_all add: spreadAppointment_def definedAppointmentUpdates_def assign_defined)

lemma spreadExpense_defined:
  assumes "definedExpenseUpdates u"
  shows "\<exists>e'. spreadExpense e u = Some e'"
  using assms by (simp add: spreadExpense_def definedExpenseUpdates_def assign_defined)

lemma updateAppointment_defined:
  assumes "definedAppointmentUpdates updates"
  shows "\<exists>s'. updateAppointment isFinite ident updates s = Inr s' \<and> patients s' = patients s"
proof -
  have "list_all (\<lambda>x. \<exists>y. (if a_id x = ident then spreadAppointment x updates else Some x) = Some y)
          (appointments s)"
    using spreadAppointment_defined [OF assms] by (simp add: list_all_iff)
  from those_map_ex [OF this] obtain ys where
    "those (map (\<lambda>x. if a_id x = ident then spreadAppointment x updates else Some x)
              (appointments s)) = Some ys"
    by blast
  then show ?thesis by (simp add: updateAppointment_def saveData_collections)
qed

lemma updateExpense_defined:
  assumes "definedExpenseUpdates updates"
  shows "\<exists>s'. updateExpense isFinite ident updates s = Inr s' \<and> patients s' = patients s"
proof -
  have "list_all (\<lambda>x. \<exists>y. (if e_id x = ident then spreadExpense x updates else Some x) = Some y)
          (expenseRecords s)"
    using spreadExpense_defined [OF assms] by (simp add: list_all_iff)
  from those_map_ex [OF this] obtain ys where
    "those (map (\<lambda>x. if e_id x = ident then spreadExpense x updates else Some x)
              (expenseRecords s)) = Some ys"
    by blast
  then show ?thesis by (simp add: updateExpense_def saveData_collections)
qed

lemma updatePatient_ids:
  assumes "definedPatientUpdates updates" and "pu_id updates = Absent"
  shows "\<exists>s'. updatePatient isFinite nowISO ident updates s = Inr s'
           \<and> map p_id (patients s') = map p_id (patients s)"
proof -
  have "map p_id (map (\<lambda>(i, patient).
            if p_id patient = ident
            then the (spreadPatient patient (updates\<lparr>pu_updatedAt := Value (nowISO i)\<rparr>))
            else patient) (enumerate 0 (patients s)))
        = map p_id (patients s)"
    by (rule nth_equalityI)
       (simp_all add: nth_enumerate_eq spreadPatient_defined [OF assms(1)] assms(2))
  then show ?thesis
    by (simp add: updatePatient_defined [OF assms(1)] saveData_collections)
qed

lemma call_keepsIds:
  assumes "keepsPatientId op" and "definedOp op"
  shows "\<exists>after. call isFinite op captured current = Inr after
           \<and> keepsIds captured current after"
proof (cases op)
  case (UpdatePatient nowISO ident updates)
  then have d: "definedPatientUpdates updates" and a: "pu_id updates = Absent"
    using assms by simp_all
  obtain s' where
    "updatePatient isFinite nowISO ident updates (captured\<lparr>storage := storage current\<rparr>) = Inr s'"
    and "map p_id (patients s') = map p_id (patients (captured\<lparr>storage := storage current\<rparr>))"
    using updatePatient_ids [OF d a] by blast
  then show ?thesis
    using UpdatePatient by (simp add: call_def keepsIds_def)
next
  case (UpdateAppointment ident updates)
  then have "definedAppointmentUpdates updates" using assms by simp
  then obtain s' where
    "updateAppointment isFinite ident updates (captured\<lparr>storage := storage current\<rparr>) = Inr s'"
    using updateAppointment_defined by blast
  then show ?thesis
    using UpdateAppointment by (simp add: call_def keepsIds_def)
next
  case (UpdateExpense ident updates)
  then have "definedExpenseUpdates updates" using assms by simp
  then obtain s' where
    "updateExpense isFinite ident updates (captured\<lparr>storage := storage current\<rparr>) = Inr s'"
    using updateExpense_defined by blast
  then show ?thesis
    using UpdateExpense by (simp add: call_def keepsIds_def)
qed (simp_all add: call_def keepsIds_def addPatient_def Let_def saveData_collections)

text \<open>
  C3 (as amended). Take any sequence of calls of the operations of the Data Store,
  each through the callback of any render, in which no \<^verbatim>\<open>updatePatient\<close> carries an
  \<^verbatim>\<open>id\<close> property and no update has a property that is \<^verbatim>\<open>undefined\<close>. Every call of
  the sequence is carried out, and each either leaves the collection of patients as it
  was or puts there a collection that begins with the patients that its callback
  captured, each at its position and with its id (the patient that it adds comes after
  them). No call gives a patient another id; a call through the callback of an earlier
  render puts back the patients of that render.
\<close>

theorem patient_ids_immutable:
  assumes "list_all (\<lambda>(op, captured). keepsPatientId op \<and> definedOp op) calls"
  shows "length (steps isFinite calls s) = length calls
       \<and> list_all (\<lambda>(captured, before, after). keepsIds captured before after)
           (steps isFinite calls s)"
  using assms
proof (induction calls arbitrary: s)
  case Nil
  then show ?case by simp
next
  case (Cons c calls)
  obtain op captured where c: "c = (op, captured)" by (cases c)
  have "keepsPatientId op" and "definedOp op" and
    rest: "list_all (\<lambda>(op, captured). keepsPatientId op \<and> definedOp op) calls"
    using Cons.prems c by simp_all
  then obtain after where
    after: "call isFinite op captured s = Inr after" and kept: "keepsIds captured s after"
    using call_keepsIds by blast
  show ?case
    using Cons.IH [OF rest, of after] after kept c by simp
qed


text \<open>
  Through the callbacks of one render: adding John Roe gives the ids 1 and 1003; the
  renaming, which still sees Jane Doe alone, puts her back alone, with her id; the visit
  leaves the patients as they are.
\<close>

theorem patient_ids_immutable_witness:
  "list_all (\<lambda>(op, captured). keepsPatientId op \<and> definedOp op) staleCalls
   \<and> map (\<lambda>(captured, before, after). map p_id (patients after))
        (steps intIsFinite staleCalls onePatient)
     = [[''1'', ''1003''], [''1''], [''1'']]"
proof -
  have h: "list_all (\<lambda>(op, captured). keepsPatientId op \<and> definedOp op) staleCalls"
    by (simp add: staleCalls_def noUpdates_def definedPatientUpdates_def)
  show ?thesis
    using patient_ids_immutable [OF h, of intIsFinite onePatient] h
    by (simp add: staleCalls_def call_def addPatient_def addVisit_def updatePatient_def
          spreadPatient_def saveData_collections onePatient_def janeDoe_def johnRoe_def
          noUpdates_def clockAt_def enumerate_eq_zip upt_rec toString_examples Let_def)
qed

text \<open>
  C3 as stated fails: the argument of \<^verbatim>\<open>updatePatient\<close> has type \<^verbatim>\<open>Partial<Patient>\<close>,
  which admits \<^verbatim>\<open>id\<close>, and the spread writes it into the record.
\<close>

theorem updatePatient_id_counterexample:
  "map p_id (patients onePatient) = [''1'']
   \<and> map_sum id (map p_id \<circ> patients)
        (updatePatient intIsFinite (clockAt ''2024-03-16T10:00:00.000Z'') ''1''
           (noUpdates\<lparr>pu_id := Value ''2''\<rparr>) onePatient) = Inr [''2'']"
  by (simp add: updatePatient_def spreadPatient_def saveData_collections onePatient_def
        janeDoe_def noUpdates_def clockAt_def enumerate_eq_zip upt_rec)

subsection \<open>Deleting an expense\<close>

text \<open>
  C10. \<^verbatim>\<open>deleteExpense(id)\<close> removes every expense record whose id is \<^verbatim>\<open>id\<close>, however
  many there are: no record with that id is left, and the records that are left are
  those with another id, in the order they had. Patients, visits, appointments and
  income records are unchanged.
\<close>

theorem deleteExpense_removes_every_match:
  "expenseRecords (deleteExpense isFinite ident s) =
     filter (\<lambda>expense. e_id expense \<noteq> ident) (expenseRecords s)
   \<and> ident \<notin> e_id ` set (expenseRecords (deleteExpense isFinite ident s))
   \<and> subseq (expenseRecords (deleteExpense isFinite ident s)) (expenseRecords s)
   \<and> patients (deleteExpense isFinite ident s) = patients s
   \<and> visits (deleteExpense isFinite ident s) = visits s
   \<and> appointments (deleteExpense isFinite ident s) = appointments s
   \<and> incomeRecords (deleteExpense isFinite ident s) = incomeRecords s"
  by (auto simp add: deleteExpense_def Let_def saveData_collections)

section \<open>Properties of the derived views\<close>


subsection \<open>Monthly financial summary\<close>













subsection \<open>Appointment counters\<close>






subsection \<open>Upcoming appointments\<close>

lemma mset_insertBy: "mset (insertBy cmp x ys) = add_mset x (mset ys)"
  by (induction ys) simp_all

lemma mset_arraySort: "mset (arraySort cmp xs) = mset xs"
  by (induction xs) (simp_all add: arraySort_def mset_insertBy)

lemma set_insertBy: "set (insertBy cmp x ys) = insert x (set ys)"
  by (induction ys) auto

lemma set_arraySort: "set (arraySort cmp xs) = set xs"
proof -
  have "set_mset (mset (arraySort cmp xs)) = set_mset (mset xs)"
    by (simp only: mset_arraySort)
  then show ?thesis by simp
qed

lemma length_arraySort: "length (arraySort cmp xs) = length xs"
proof -
  have "size (mset (arraySort cmp xs)) = size (mset xs)"
    by (simp add: mset_arraySort)
  then show ?thesis by simp
qed

text \<open>
  Insertion keeps a list sorted when the comparison function is total and transitive
  on the elements at hand.
\<close>

lemma sorted_insertBy:
  assumes total: "\<forall>a\<in>A. \<forall>b\<in>A. cmp a b \<le> 0 \<or> cmp b a \<le> 0"
      and trans: "\<forall>a\<in>A. \<forall>b\<in>A. \<forall>c\<in>A. cmp a b \<le> 0 \<longrightarrow> cmp b c \<le> 0 \<longrightarrow> cmp a c \<le> 0"
      and "x \<in> A" and "set ys \<subseteq> A"
      and "sorted_wrt (\<lambda>a b. cmp a b \<le> 0) ys"
  shows "sorted_wrt (\<lambda>a b. cmp a b \<le> 0) (insertBy cmp x ys)"
  using assms(4,5)
proof (induction ys)
  case Nil
  then show ?case by simp
next
  case (Cons y ys)
  have yA: "y \<in> A" and ysA: "set ys \<subseteq> A"
    using Cons.prems(1) by simp_all
  show ?case
  proof (cases "cmp x y \<le> 0")
    case True
    have "cmp x z \<le> 0" if "z \<in> set ys" for z
    proof -
      have "cmp y z \<le> 0" using Cons.prems(2) that by simp
      moreover have "z \<in> A" using ysA that by blast
      ultimately show ?thesis using trans \<open>x \<in> A\<close> yA True by blast
    qed
    then show ?thesis using True Cons.prems(2) by simp
  next
    case False
    then have yx: "cmp y x \<le> 0" using total \<open>x \<in> A\<close> yA by blast
    have "sorted_wrt (\<lambda>a b. cmp a b \<le> 0) (insertBy cmp x ys)"
      using Cons.IH [OF ysA] Cons.prems(2) by simp
    then show ?thesis using False yx Cons.prems(2) by (auto simp add: set_insertBy)
  qed
qed

lemma sorted_arraySort:
  assumes total: "\<forall>a\<in>A. \<forall>b\<in>A. cmp a b \<le> 0 \<or> cmp b a \<le> 0"
      and trans: "\<forall>a\<in>A. \<forall>b\<in>A. \<forall>c\<in>A. cmp a b \<le> 0 \<longrightarrow> cmp b c \<le> 0 \<longrightarrow> cmp a c \<le> 0"
      and "set xs \<subseteq> A"
  shows "sorted_wrt (\<lambda>a b. cmp a b \<le> 0) (arraySort cmp xs)"
  using assms(3)
proof (induction xs)
  case Nil
  then show ?case by (simp add: arraySort_def)
next
  case (Cons x xs)
  have xA: "x \<in> A" and xsA: "set xs \<subseteq> A"
    using Cons.prems by simp_all
  have step: "arraySort cmp (x # xs) = insertBy cmp x (arraySort cmp xs)"
    by (simp add: arraySort_def)
  have inA: "set (arraySort cmp xs) \<subseteq> A"
    using xsA by (simp add: set_arraySort)
  show ?case
    unfolding step by (rule sorted_insertBy [OF total trans xA inA Cons.IH [OF xsA]])
qed

text \<open>The laws of an ordering and of a collation, one by one.\<close>

lemma ordering_swap:
  assumes "orderingOn S lc" and "x \<in> S" and "y \<in> S"
  shows "(lc x y < 0) = (0 < lc y x)"
  using assms unfolding orderingOn_def by blast

lemma ordering_trans:
  assumes "orderingOn S lc" and "x \<in> S" and "y \<in> S" and "z \<in> S"
      and "lc x y \<le> 0" and "lc y z \<le> 0"
  shows "lc x z \<le> 0"
  using assms unfolding orderingOn_def by blast

lemma ordering_total:
  assumes "orderingOn S lc" and "x \<in> S" and "y \<in> S"
  shows "lc x y \<le> 0 \<or> lc y x \<le> 0"
proof (cases "lc x y \<le> 0")
  case True
  then show ?thesis by simp
next
  case False
  then have "0 < lc x y" by simp
  then have "lc y x < 0" by (simp add: ordering_swap [OF assms(1,3,2)])
  then show ?thesis by simp
qed

lemma collation_ordering: "collationOn S lc \<Longrightarrow> orderingOn S lc"
  by (simp add: collationOn_def)

lemma collation_zero:
  assumes "collationOn S lc" and "x \<in> S" and "y \<in> S"
  shows "(lc x y = 0) = (x = y)"
  using assms unfolding collationOn_def by blast

lemma collation_strict_trans:
  assumes c: "collationOn S lc" and x: "x \<in> S" and y: "y \<in> S" and z: "z \<in> S"
      and xy: "lc x y < 0" and yz: "lc y z < 0"
  shows "lc x z < 0"
proof -
  note o = collation_ordering [OF c]
  have le: "lc x z \<le> 0"
    using ordering_trans [OF o x y z] xy yz by simp
  have "lc x z \<noteq> 0"
  proof
    assume "lc x z = 0"
    then have "x = z" by (simp add: collation_zero [OF c x z])
    then have "lc y x < 0" using yz by simp
    then have "0 < lc x y" by (simp add: ordering_swap [OF o y x])
    then show False using xy by simp
  qed
  then show ?thesis using le by simp
qed

text \<open>
  Where \<^verbatim>\<open>localeCompare\<close> is a collation of the dates and an ordering of the times, the
  comparison function of the source decides \<open>upcomingOrder\<close>, which is total and
  transitive there.
\<close>

lemma compareUpcoming_order:
  assumes c: "collationOn D lc" and "a_date a \<in> D" and "a_date b \<in> D"
  shows "(compareUpcoming lc a b \<le> 0) = upcomingOrder lc a b"
proof (cases "a_date a = a_date b")
  case True
  moreover have "lc (a_date b) (a_date b) = 0"
    by (simp add: collation_zero [OF c assms(3) assms(3)])
  ultimately show ?thesis by (simp add: compareUpcoming_def upcomingOrder_def)
next
  case False
  then have "lc (a_date a) (a_date b) \<noteq> 0"
    by (simp add: collation_zero [OF c assms(2) assms(3)])
  then show ?thesis using False by (auto simp add: compareUpcoming_def upcomingOrder_def)
qed

lemma upcomingOrder_total:
  assumes c: "collationOn D lc" and o: "orderingOn T lc"
      and da: "a_date a \<in> D" and ta: "a_time a \<in> T"
      and db: "a_date b \<in> D" and tb: "a_time b \<in> T"
  shows "upcomingOrder lc a b \<or> upcomingOrder lc b a"
proof (cases "a_date a = a_date b")
  case True
  then show ?thesis
    using ordering_total [OF o ta tb] by (auto simp add: upcomingOrder_def)
next
  case False
  then have ne: "lc (a_date a) (a_date b) \<noteq> 0"
    by (simp add: collation_zero [OF c da db])
  show ?thesis
  proof (cases "lc (a_date a) (a_date b) < 0")
    case True
    then show ?thesis by (simp add: upcomingOrder_def)
  next
    case False
    then have "0 < lc (a_date a) (a_date b)" using ne by simp
    then have "lc (a_date b) (a_date a) < 0"
      by (simp add: ordering_swap [OF collation_ordering [OF c] db da])
    then show ?thesis by (simp add: upcomingOrder_def)
  qed
qed

lemma upcomingOrder_trans:
  assumes c: "collationOn D lc" and o: "orderingOn T lc"
      and da: "a_date a \<in> D" and ta: "a_time a \<in> T"
      and db: "a_date b \<in> D" and tb: "a_time b \<in> T"
      and dc: "a_date c \<in> D" and tc: "a_time c \<in> T"
      and ab: "upcomingOrder lc a b" and bc: "upcomingOrder lc b c"
  shows "upcomingOrder lc a c"
proof -
  consider (ll) "lc (a_date a) (a_date b) < 0" "lc (a_date b) (a_date c) < 0"
    | (le) "lc (a_date a) (a_date b) < 0" "a_date b = a_date c"
    | (el) "a_date a = a_date b" "lc (a_date b) (a_date c) < 0"
    | (ee) "a_date a = a_date b" "a_date b = a_date c"
           "lc (a_time a) (a_time b) \<le> 0" "lc (a_time b) (a_time c) \<le> 0"
    using ab bc by (auto simp add: upcomingOrder_def)
  then show ?thesis
  proof cases
    case ll
    then have "lc (a_date a) (a_date c) < 0"
      by (rule collation_strict_trans [OF c da db dc])
    then show ?thesis by (simp add: upcomingOrder_def)
  next
    case le
    then show ?thesis by (simp add: upcomingOrder_def)
  next
    case el
    then show ?thesis by (simp add: upcomingOrder_def)
  next
    case ee
    have "lc (a_time a) (a_time c) \<le> 0"
      by (rule ordering_trans [OF o ta tb tc ee(3) ee(4)])
    then show ?thesis using ee(1,2) by (simp add: upcomingOrder_def)
  qed
qed

text \<open>
  C6 (as amended). Let \<^verbatim>\<open>localeCompare\<close> arrange the time strings of the appointments in
  a line, in which different strings may tie, and the date strings in a line without
  ties. Then the upcoming list is the first ten entries (all, if there are fewer) of an
  arrangement of exactly the appointments of the active clinic with status
  \<^verbatim>\<open>scheduled\<close> and date \<open>\<ge>\<close> today, each as often as it occurs, that ascends by date
  and, within equal dates, by the time string, both in the order of \<^verbatim>\<open>localeCompare\<close>,
  the collation of the platform, which is not the comparison of strings character by
  character.
\<close>

theorem upcomingAppointments_sorted:
  assumes c: "collationOn (a_date ` set apts) lc"
      and o: "orderingOn (a_time ` set apts) lc"
  shows "let eligible = filter (\<lambda>a. ofActiveClinic active (a_clinicId a)
                                   \<and> today \<le> a_date a \<and> a_status a = scheduled) apts;
             ordered = arraySort (compareUpcoming lc) eligible;
             shown = upcomingAppointments lc today (clinicAppointments active apts)
         in mset ordered = mset eligible
          \<and> sorted_wrt (upcomingOrder lc) ordered
          \<and> shown = take 10 ordered
          \<and> length shown = min 10 (length eligible)"
proof -
  let ?eligible = "filter (\<lambda>a. ofActiveClinic active (a_clinicId a)
                              \<and> today \<le> a_date a \<and> a_status a = scheduled) apts"
  let ?cmp = "compareUpcoming lc"
  let ?D = "a_date ` set apts"
  let ?T = "a_time ` set apts"
  have inD: "a_date a \<in> ?D" and inT: "a_time a \<in> ?T" if "a \<in> set apts" for a
    using that by simp_all
  have ord: "(?cmp a b \<le> 0) = upcomingOrder lc a b" if "a \<in> set apts" "b \<in> set apts" for a b
    by (rule compareUpcoming_order [OF c inD [OF that(1)] inD [OF that(2)]])
  have total: "\<forall>a\<in>set apts. \<forall>b\<in>set apts. ?cmp a b \<le> 0 \<or> ?cmp b a \<le> 0"
  proof (intro ballI)
    fix a b assume a: "a \<in> set apts" and b: "b \<in> set apts"
    show "?cmp a b \<le> 0 \<or> ?cmp b a \<le> 0"
      unfolding ord [OF a b] ord [OF b a]
      by (rule upcomingOrder_total [OF c o inD [OF a] inT [OF a] inD [OF b] inT [OF b]])
  qed
  have trans: "\<forall>a\<in>set apts. \<forall>b\<in>set apts. \<forall>d\<in>set apts.
                 ?cmp a b \<le> 0 \<longrightarrow> ?cmp b d \<le> 0 \<longrightarrow> ?cmp a d \<le> 0"
  proof (intro ballI impI)
    fix a b d assume a: "a \<in> set apts" and b: "b \<in> set apts" and d: "d \<in> set apts"
    assume "?cmp a b \<le> 0" and "?cmp b d \<le> 0"
    then have ab: "upcomingOrder lc a b" and bd: "upcomingOrder lc b d"
      by (simp_all add: ord [OF a b] ord [OF b d])
    have "upcomingOrder lc a d"
      by (rule upcomingOrder_trans [OF c o inD [OF a] inT [OF a] inD [OF b] inT [OF b]
            inD [OF d] inT [OF d] ab bd])
    then show "?cmp a d \<le> 0" by (simp add: ord [OF a d])
  qed
  have sub: "set ?eligible \<subseteq> set apts"
    by auto
  have sortedCmp: "sorted_wrt (\<lambda>a b. ?cmp a b \<le> 0) (arraySort ?cmp ?eligible)"
    by (rule sorted_arraySort [OF total trans sub])
  have inApts: "set (arraySort ?cmp ?eligible) \<subseteq> set apts"
    using sub by (simp add: set_arraySort)
  have sorted: "sorted_wrt (upcomingOrder lc) (arraySort ?cmp ?eligible)"
  proof (rule sorted_wrt_mono_rel [OF _ sortedCmp])
    fix a b
    assume "a \<in> set (arraySort ?cmp ?eligible)" and "b \<in> set (arraySort ?cmp ?eligible)"
       and le: "?cmp a b \<le> 0"
    then have "a \<in> set apts" and "b \<in> set apts" using inApts by blast+
    then show "upcomingOrder lc a b" using le by (simp add: ord)
  qed
  have shown: "upcomingAppointments lc today (clinicAppointments active apts)
                 = take 10 (arraySort ?cmp ?eligible)"
    by (simp add: upcomingAppointments_def clinicAppointments_def)
  have len: "length (take 10 (arraySort ?cmp ?eligible)) = min 10 (length ?eligible)"
    by (simp add: length_arraySort min.commute)
  show ?thesis
    unfolding Let_def shown using sorted len mset_arraySort [of ?cmp ?eligible] by blast
qed

text \<open>
  The comparison by character codes arranges every set of strings in a line without
  ties. With it, of four appointments of clinic C1 the three scheduled ones are listed,
  the two of 15 March by their time strings and then the one of 20 April.
\<close>

lemma collationOn_codeUnitCompare: "collationOn S codeUnitCompare"
  unfolding collationOn_def orderingOn_def codeUnitCompare_def by auto

theorem upcomingAppointments_sorted_witness:
  "collationOn
     (a_date ` set [aptApril, aptLater, aptMorning\<lparr>a_status := completed\<rparr>, aptMorning])
     codeUnitCompare
   \<and> orderingOn
     (a_time ` set [aptApril, aptLater, aptMorning\<lparr>a_status := completed\<rparr>, aptMorning])
     codeUnitCompare
   \<and> upcomingAppointments codeUnitCompare ''2024-03-15''
       (clinicAppointments (Some clinicOne)
          [aptApril, aptLater, aptMorning\<lparr>a_status := completed\<rparr>, aptMorning])
     = [aptMorning, aptLater, aptApril]"
proof -
  let ?apts = "[aptApril, aptLater, aptMorning\<lparr>a_status := completed\<rparr>, aptMorning]"
  have c: "collationOn (a_date ` set ?apts) codeUnitCompare"
    by (rule collationOn_codeUnitCompare)
  have o: "orderingOn (a_time ` set ?apts) codeUnitCompare"
    by (rule collation_ordering [OF collationOn_codeUnitCompare])
  have "upcomingAppointments codeUnitCompare ''2024-03-15''
          (clinicAppointments (Some clinicOne) ?apts) = [aptMorning, aptLater, aptApril]"
    using upcomingAppointments_sorted [OF c o, of "Some clinicOne" "''2024-03-15''"]
    by (simp add: upcomingAppointments_def clinicAppointments_def ofActiveClinic_def
          clinicOne_def aptMorning_def aptLater_def aptApril_def arraySort_def
          compareUpcoming_def codeUnitCompare_def Let_def)
  with c o show ?thesis by blast
qed

text \<open>
  C6 as stated fails where the collation of the platform departs from the comparison
  character by character. Two appointments of one day are timed \<^verbatim>\<open>09:00 AM\<close> and
  \<^verbatim>\<open>09:00 am\<close>. The collation puts a lower-case letter before its upper-case letter, so
  the list shows \<^verbatim>\<open>09:00 am\<close> first, whereas character by character \<^verbatim>\<open>09:00 AM\<close> is the
  smaller string. This collation arranges all strings in a line without ties.
\<close>

lemma caseKey_eq: "(caseKey c = caseKey d) = (c = d)"
proof
  assume e: "caseKey c = caseKey d"
  have "of_char c = (of_char d :: nat)"
  proof (cases "CHR ''A'' \<le> c \<and> c \<le> CHR ''Z''")
    case True
    then have kc: "caseKey c = 2 * (of_char c + 32) + 1"
      by (simp add: caseKey_def)
    show ?thesis
    proof (cases "CHR ''A'' \<le> d \<and> d \<le> CHR ''Z''")
      case True
      then have "caseKey d = 2 * (of_char d + 32) + 1" by (simp add: caseKey_def)
      with kc e show ?thesis by simp
    next
      case False
      then have "caseKey d = 2 * of_char d" by (simp add: caseKey_def)
      with kc e show ?thesis by presburger
    qed
  next
    case False
    then have kc: "caseKey c = 2 * of_char c"
      by (simp add: caseKey_def)
    show ?thesis
    proof (cases "CHR ''A'' \<le> d \<and> d \<le> CHR ''Z''")
      case True
      then have "caseKey d = 2 * (of_char d + 32) + 1" by (simp add: caseKey_def)
      with kc e show ?thesis by presburger
    next
      case False
      then have "caseKey d = 2 * of_char d" by (simp add: caseKey_def)
      with kc e show ?thesis by simp
    qed
  qed
  then show "c = d" by simp
qed simp

lemma caseKeys_eq: "(map caseKey x = map caseKey y) = (x = y)"
  by (rule inj_map_eq_map) (simp add: inj_def caseKey_eq)

lemma collationOn_dictionaryCompare: "collationOn S dictionaryCompare"
  unfolding collationOn_def orderingOn_def dictionaryCompare_def
  by (auto simp add: caseKeys_eq)

lemma dictionaryCompare_examples:
  "dictionaryCompare ''09:00 am'' ''09:00 AM'' = - 1"
  "dictionaryCompare ''09:00 AM'' ''09:00 am'' = 1"
  by code_simp+

theorem upcomingAppointments_counterexample:
  "upcomingAppointments dictionaryCompare ''2024-03-15''
       (clinicAppointments (Some clinicOne) [aptUpper, aptLower])
     = [aptLower, aptUpper]
   \<and> a_date aptLower = a_date aptUpper
   \<and> a_time aptUpper < a_time aptLower
   \<and> collationOn (a_date ` set [aptUpper, aptLower]) dictionaryCompare
   \<and> orderingOn (a_time ` set [aptUpper, aptLower]) dictionaryCompare"
proof -
  have "upcomingAppointments dictionaryCompare ''2024-03-15''
          (clinicAppointments (Some clinicOne) [aptUpper, aptLower]) = [aptLower, aptUpper]"
    by (simp add: upcomingAppointments_def clinicAppointments_def ofActiveClinic_def
          clinicOne_def aptMorning_def aptUpper_def aptLower_def arraySort_def
          compareUpcoming_def dictionaryCompare_examples)
  moreover have "a_date aptLower = a_date aptUpper \<and> a_time aptUpper < a_time aptLower"
    by (simp add: aptMorning_def aptUpper_def aptLower_def)
  ultimately show ?thesis
    using collationOn_dictionaryCompare collation_ordering [OF collationOn_dictionaryCompare]
    by blast
qed

section \<open>Properties of the Clinic Store\<close>

text \<open>
  C7. Let the storage hold nothing under \<^verbatim>\<open>clinics\<close> and answer the requests of the
  load. Then \<^verbatim>\<open>loadClinics\<close> leaves exactly one clinic in the collection, named
  \<^verbatim>\<open>"My Clinic"\<close>, with empty address and phone and \<^verbatim>\<open>isActive = true\<close>; that clinic is
  the active clinic; the storage holds the one-element list under \<^verbatim>\<open>clinics\<close> and the
  clinic's id under \<^verbatim>\<open>activeClinicId\<close>.
\<close>

theorem loadClinics_creates_default:
  assumes "items (cs_storage s) ''clinics'' = None"
      and "\<not> rejectsGet (cs_storage s) ''clinics''"
      and "\<not> rejectsGet (cs_storage s) ''activeClinicId''"
      and "\<not> rejectsSet (cs_storage s) ''clinics''"
      and "\<not> rejectsSet (cs_storage s) ''activeClinicId''"
  shows "\<exists>s'. loadClinics now nowISO s = Inr s'
           \<and> clinics s' =
               [\<lparr>c_id = toString now, c_name = ''My Clinic'', c_address = [],
                 c_phoneNumber = [], c_isActive = True, c_createdAt = nowISO\<rparr>]
           \<and> activeClinic s' = Some (hd (clinics s'))
           \<and> items (cs_storage s') ''clinics'' = Some (stringifyClinics (clinics s'))
           \<and> items (cs_storage s') ''activeClinicId'' = Some (Text (c_id (hd (clinics s'))))
           \<and> cs_loading s' = False"
  using assms
  by (simp add: loadClinics_def getItem_def setItem_def defaultClinic_def Let_def)

theorem loadClinics_creates_default_witness:
  "items (cs_storage (initialClinics emptyStorage :: int ClinicState)) ''clinics'' = None
   \<and> \<not> rejectsGet (cs_storage (initialClinics emptyStorage :: int ClinicState)) ''clinics''
   \<and> \<not> rejectsGet (cs_storage (initialClinics emptyStorage :: int ClinicState)) ''activeClinicId''
   \<and> \<not> rejectsSet (cs_storage (initialClinics emptyStorage :: int ClinicState)) ''clinics''
   \<and> \<not> rejectsSet (cs_storage (initialClinics emptyStorage :: int ClinicState)) ''activeClinicId''
   \<and> (\<exists>s'. loadClinics 1001 ''2024-03-15T09:00:00.000Z''
               (initialClinics emptyStorage :: int ClinicState) = Inr s'
           \<and> clinics s' =
               [\<lparr>c_id = ''1001'', c_name = ''My Clinic'', c_address = [],
                 c_phoneNumber = [], c_isActive = True,
                 c_createdAt = ''2024-03-15T09:00:00.000Z''\<rparr>]
           \<and> activeClinic s' = Some (hd (clinics s'))
           \<and> items (cs_storage s') ''activeClinicId'' = Some (Text ''1001''))"
proof -
  let ?s = "initialClinics emptyStorage :: int ClinicState"
  have h1: "items (cs_storage ?s) ''clinics'' = None"
    by (simp add: initialClinics_def emptyStorage_def)
  have h2: "\<not> rejectsGet (cs_storage ?s) ''clinics''"
    by (simp add: initialClinics_def emptyStorage_def)
  have h3: "\<not> rejectsGet (cs_storage ?s) ''activeClinicId''"
    by (simp add: initialClinics_def emptyStorage_def)
  have h4: "\<not> rejectsSet (cs_storage ?s) ''clinics''"
    by (simp add: initialClinics_def emptyStorage_def)
  have h5: "\<not> rejectsSet (cs_storage ?s) ''activeClinicId''"
    by (simp add: initialClinics_def emptyStorage_def)
  show ?thesis
    using loadClinics_creates_default [OF h1 h2 h3 h4 h5, of 1001 "''2024-03-15T09:00:00.000Z''"]
      h1 h2 h3 h4 h5
    by (auto simp add: toString_examples)
qed

text \<open>
  C8. When no clinic of the collection has the given id, \<^verbatim>\<open>setActiveClinic\<close> leaves the
  whole state as it is: the active clinic, the clinic list and the storage.
\<close>

theorem setActiveClinic_unknown_id:
  assumes "\<forall>c \<in> set (clinics s). c_id c \<noteq> clinicId"
  shows "setActiveClinic clinicId s = s"
proof -
  have "find (\<lambda>c. c_id c = clinicId) (clinics s) = None"
    using assms by (simp add: find_None_iff)
  then show ?thesis by (simp add: setActiveClinic_def)
qed

theorem setActiveClinic_unknown_id_witness:
  "list_all (\<lambda>c. c_id c \<noteq> ''C2'') (clinics oneClinic)
   \<and> activeClinic (setActiveClinic ''C2'' oneClinic) = Some clinicOne
   \<and> clinics (setActiveClinic ''C2'' oneClinic) = [clinicOne]
   \<and> cs_storage (setActiveClinic ''C2'' oneClinic) = (emptyStorage :: int AsyncStorage)"
proof -
  have h: "\<forall>c \<in> set (clinics oneClinic). c_id c \<noteq> ''C2''"
    by (simp add: oneClinic_def clinicOne_def)
  show ?thesis
    using setActiveClinic_unknown_id [OF h] h
    by (simp add: oneClinic_def initialClinics_def list_all_iff)
qed

section \<open>Persisting and reloading the collections\<close>

text \<open>
  What a record is after it was written and read back: a number that is not finite has
  become \<^verbatim>\<open>null\<close>, everything else is as it was.
\<close>

lemma asSex_jsonSex: "asSex (Some (jsonSex x)) = Some x"
  by (cases x) simp_all

lemma asStatus_jsonStatus: "asStatus (Some (jsonStatus x)) = Some x"
  by (cases x) simp_all

lemma asPatient_jsonPatient:
  "asPatient null (jsonPatient isFinite p)
     = Some (if isFinite (p_age p) then p else p\<lparr>p_age := null\<rparr>)"
  by (cases p) (simp add: jsonPatient_def jsonNumber_def asSex_jsonSex)

lemma asVisit_jsonVisit:
  "asVisit null (jsonVisit isFinite v)
     = Some (if isFinite (v_fee v) then v else v\<lparr>v_fee := null\<rparr>)"
  by (cases v; cases "v_followUpDate v") (simp_all add: jsonVisit_def jsonNumber_def)

lemma asAppointment_jsonAppointment:
  "asAppointment (jsonAppointment a) = Some a"
  by (cases a; cases "a_notes a") (simp_all add: jsonAppointment_def asStatus_jsonStatus)

lemma asIncomeRecord_jsonIncomeRecord:
  "asIncomeRecord null (jsonIncomeRecord isFinite r)
     = Some (if isFinite (i_amount r) then r else r\<lparr>i_amount := null\<rparr>)"
  by (cases r) (simp add: jsonIncomeRecord_def jsonNumber_def)

lemma asExpenseRecord_jsonExpenseRecord:
  "asExpenseRecord null (jsonExpenseRecord isFinite r)
     = Some (if isFinite (e_amount r) then r else r\<lparr>e_amount := null\<rparr>)"
  by (cases r) (simp add: jsonExpenseRecord_def jsonNumber_def)

lemma those_map_read:
  "(\<And>x. dec (enc x) = Some (f x)) \<Longrightarrow> those (map (dec \<circ> enc) xs) = Some (map f xs)"
  by (induction xs) simp_all

lemma map_unless:
  "list_all P xs \<Longrightarrow> map (\<lambda>x. if P x then x else f x) xs = xs"
  by (induction xs) simp_all

lemma asArray_patients:
  "asArray (asPatient null) (JArray (map (jsonPatient isFinite) xs))
     = Some (map (\<lambda>p. if isFinite (p_age p) then p else p\<lparr>p_age := null\<rparr>) xs)"
  by (simp add: those_map_read [where dec = "asPatient null", OF asPatient_jsonPatient]
        del: asPatient.simps)

lemma asArray_visits:
  "asArray (asVisit null) (JArray (map (jsonVisit isFinite) xs))
     = Some (map (\<lambda>v. if isFinite (v_fee v) then v else v\<lparr>v_fee := null\<rparr>) xs)"
  by (simp add: those_map_read [where dec = "asVisit null", OF asVisit_jsonVisit]
        del: asVisit.simps)

lemma asArray_appointments:
  "asArray asAppointment (JArray (map jsonAppointment xs)) = Some xs"
  by (simp add: those_map_read [where dec = asAppointment and f = "\<lambda>a. a",
          OF asAppointment_jsonAppointment]
        del: asAppointment.simps)

lemma asArray_incomeRecords:
  "asArray (asIncomeRecord null) (JArray (map (jsonIncomeRecord isFinite) xs))
     = Some (map (\<lambda>r. if isFinite (i_amount r) then r else r\<lparr>i_amount := null\<rparr>) xs)"
  by (simp add: those_map_read [where dec = "asIncomeRecord null",
          OF asIncomeRecord_jsonIncomeRecord]
        del: asIncomeRecord.simps)

lemma asArray_expenseRecords:
  "asArray (asExpenseRecord null) (JArray (map (jsonExpenseRecord isFinite) xs))
     = Some (map (\<lambda>r. if isFinite (e_amount r) then r else r\<lparr>e_amount := null\<rparr>) xs)"
  by (simp add: those_map_read [where dec = "asExpenseRecord null",
          OF asExpenseRecord_jsonExpenseRecord]
        del: asExpenseRecord.simps)

lemma storage_persistAll:
  assumes "list_all (\<lambda>key. \<not> rejectsSet (storage s) key) keys"
  shows "storage (persistAll isFinite s) =
           (storage s)\<lparr>items := (items (storage s))
              (''patients'' \<mapsto> stringify isFinite (Patients (patients s)),
               ''visits'' \<mapsto> stringify isFinite (Visits (visits s)),
               ''appointments'' \<mapsto> stringify isFinite (Appointments (appointments s)),
               ''incomeRecords'' \<mapsto> stringify isFinite (IncomeRecords (incomeRecords s)),
               ''expenseRecords'' \<mapsto> stringify isFinite (ExpenseRecords (expenseRecords s)))\<rparr>"
  using assms by (simp add: persistAll_def saveData_def setItem_def keys_def)

lemma loadData_persistAll:
  assumes "list_all (\<lambda>key. \<not> rejectsSet (storage s) key \<and> \<not> rejectsGet (storage s) key) keys"
  shows "loadData null (initialData (storage (persistAll isFinite s))) =
           Inr \<lparr>l_state = (initialData (storage (persistAll isFinite s)))
                  \<lparr>patients :=
                     map (\<lambda>p. if isFinite (p_age p) then p else p\<lparr>p_age := null\<rparr>) (patients s),
                   visits :=
                     map (\<lambda>v. if isFinite (v_fee v) then v else v\<lparr>v_fee := null\<rparr>) (visits s),
                   appointments := appointments s,
                   incomeRecords :=
                     map (\<lambda>r. if isFinite (i_amount r) then r else r\<lparr>i_amount := null\<rparr>)
                       (incomeRecords s),
                   expenseRecords :=
                     map (\<lambda>r. if isFinite (e_amount r) then r else r\<lparr>e_amount := null\<rparr>)
                       (expenseRecords s),
                   loading := False\<rparr>,
                l_illTyped = []\<rparr>"
proof -
  have sets: "list_all (\<lambda>key. \<not> rejectsSet (storage s) key) keys"
    using assms by (simp add: keys_def)
  have gets: "\<not> list_ex (rejectsGet (storage s)) keys"
    using assms by (simp add: keys_def)
  show ?thesis
    using gets
    by (simp add: loadData_def multiGet_def initialData_def storage_persistAll [OF sets]
          keys_def loadEntry_def setLoaded_def asArray_patients asArray_visits
          asArray_appointments asArray_incomeRecords asArray_expenseRecords
          del: asArray.simps)
qed

text \<open>
  C9 (as amended). Let the storage answer the requests at the five keys. Then persisting
  the collections and loading them into a freshly started store gives back, for each
  collection by itself, its records in the same order and each with the values it had,
  except that a number that is not finite (\<^verbatim>\<open>NaN\<close>, \<^verbatim>\<open>Infinity\<close>, \<^verbatim>\<open>-Infinity\<close>) has
  become \<^verbatim>\<open>null\<close>. So the appointments always come back as they were; and the patients,
  the visits, the income records and the expenses each come back as they were if every
  number of that collection is finite, whatever the numbers of the other collections.
\<close>

theorem reload_after_persist:
  assumes "list_all (\<lambda>key. \<not> rejectsSet (storage s) key \<and> \<not> rejectsGet (storage s) key) keys"
  shows "\<exists>ld. loadData null (initialData (storage (persistAll isFinite s))) = Inr ld
           \<and> l_illTyped ld = []
           \<and> patients (l_state ld) =
               map (\<lambda>p. if isFinite (p_age p) then p else p\<lparr>p_age := null\<rparr>) (patients s)
           \<and> visits (l_state ld) =
               map (\<lambda>v. if isFinite (v_fee v) then v else v\<lparr>v_fee := null\<rparr>) (visits s)
           \<and> appointments (l_state ld) = appointments s
           \<and> incomeRecords (l_state ld) =
               map (\<lambda>r. if isFinite (i_amount r) then r else r\<lparr>i_amount := null\<rparr>)
                 (incomeRecords s)
           \<and> expenseRecords (l_state ld) =
               map (\<lambda>r. if isFinite (e_amount r) then r else r\<lparr>e_amount := null\<rparr>)
                 (expenseRecords s)
           \<and> (list_all (\<lambda>p. isFinite (p_age p)) (patients s)
                \<longrightarrow> patients (l_state ld) = patients s)
           \<and> (list_all (\<lambda>v. isFinite (v_fee v)) (visits s)
                \<longrightarrow> visits (l_state ld) = visits s)
           \<and> (list_all (\<lambda>r. isFinite (i_amount r)) (incomeRecords s)
                \<longrightarrow> incomeRecords (l_state ld) = incomeRecords s)
           \<and> (list_all (\<lambda>r. isFinite (e_amount r)) (expenseRecords s)
                \<longrightarrow> expenseRecords (l_state ld) = expenseRecords s)"
  by (simp add: loadData_persistAll [OF assms]
        map_unless [where P = "\<lambda>p. isFinite (p_age p)"]
        map_unless [where P = "\<lambda>v. isFinite (v_fee v)"]
        map_unless [where P = "\<lambda>r. isFinite (i_amount r)"]
        map_unless [where P = "\<lambda>r. isFinite (e_amount r)"])

text \<open>
  A patient, two appointments (one with notes) and an expense come back as they were,
  although the visit that is stored with them has the fee \<^verbatim>\<open>Infinity\<close>.
\<close>

theorem reload_after_persist_witness:
  "list_all (\<lambda>key. \<not> rejectsSet (storage costlyRecords) key
                     \<and> \<not> rejectsGet (storage costlyRecords) key) keys
   \<and> (\<exists>ld. loadData Null (initialData (storage (persistAll Number_isFinite costlyRecords)))
             = Inr ld
           \<and> l_illTyped ld = []
           \<and> patients (l_state ld) = [janeNumbered]
           \<and> appointments (l_state ld) = appointments costlyRecords
           \<and> expenseRecords (l_state ld) = [glovesNumbered])"
proof -
  have h: "list_all (\<lambda>key. \<not> rejectsSet (storage costlyRecords) key
                          \<and> \<not> rejectsGet (storage costlyRecords) key) keys"
    by (simp add: costlyRecords_def initialData_def emptyStorage_def keys_def)
  have "patients costlyRecords = [janeNumbered]" "expenseRecords costlyRecords = [glovesNumbered]"
    "Number_isFinite (p_age janeNumbered)" "Number_isFinite (e_amount glovesNumbered)"
    by (simp_all add: costlyRecords_def janeNumbered_def glovesNumbered_def)
  with reload_after_persist [OF h, of Null Number_isFinite]
  obtain ld where
    "loadData Null (initialData (storage (persistAll Number_isFinite costlyRecords))) = Inr ld"
    and "l_illTyped ld = []"
    and "patients (l_state ld) = [janeNumbered]"
    and "appointments (l_state ld) = appointments costlyRecords"
    and "expenseRecords (l_state ld) = [glovesNumbered]"
    by auto
  with h show ?thesis by simp
qed

text \<open>
  C9 as stated fails for a collection with a number that is not finite. A visit whose fee
  is \<^verbatim>\<open>Infinity\<close> is written with the fee \<^verbatim>\<open>null\<close>, and the visit that is loaded after
  a restart has the fee \<^verbatim>\<open>null\<close>: it is not the visit that was saved.
\<close>

theorem reload_counterexample:
  "visits costlyRecords = [costlyVisit]
   \<and> v_fee costlyVisit = Infinity
   \<and> map_sum id (map v_fee \<circ> visits \<circ> l_state)
       (loadData Null (initialData (storage (persistAll Number_isFinite costlyRecords))))
     = Inr [Null]"
proof -
  have h: "list_all (\<lambda>key. \<not> rejectsSet (storage costlyRecords) key
                          \<and> \<not> rejectsGet (storage costlyRecords) key) keys"
    by (simp add: costlyRecords_def initialData_def emptyStorage_def keys_def)
  have "visits costlyRecords = [costlyVisit]" "v_fee costlyVisit = Infinity"
    by (simp_all add: costlyRecords_def costlyVisit_def)
  then show ?thesis
    by (simp add: loadData_persistAll [OF h])
qed

end
